theory Spec2Isabelle
  imports Main
begin

section \<open>The outside world of the scripts\<close>

text \<open>
  The scripts talk to vendor SDKs, to the \<open>requests\<close> library, to the process environment
  and to the file system. None of that code is part of the repository, so it is a
  parameter: a \<open>world\<close> fixes, for every call a script can make, what the call returns or
  which exception it raises. What the scripts change (the log of calls made, the elapsed
  time, the file system, standard output) is a \<open>state\<close> that every function takes and
  returns.

  A value of type \<open>exn\<close> is an instance of Python's \<open>Exception\<close>, the class that every
  \<open>except Exception\<close> of the scripts catches: its class (a class stands for its subclasses
  too) and the text \<open>str(e)\<close>.
\<close>

datatype exn_class = ImportError | ValueError | OSError | OtherError

datatype exn = Exn exn_class string

fun exn_class_of :: "exn \<Rightarrow> exn_class" where
  "exn_class_of (Exn c m) = c"

fun str_exn :: "exn \<Rightarrow> string" where
  "str_exn (Exn c m) = m"

text \<open>JSON-like values, for the bodies of HTTP requests.\<close>

datatype jval =
    JStr string
  | JInt int
  | JFloat int int  \<comment> \<open>mantissa and decimal exponent: \<open>1.0\<close> is \<open>JFloat 10 (-1)\<close>\<close>
  | JList "jval list"
  | JObj "(string \<times> jval) list"

datatype payload =
    JsonBody "(string \<times> jval) list"
  | FormBody "(string \<times> string) list" "(string \<times> jval) list"

text \<open>
  One constructor per call into foreign code that can reach the network, with the
  arguments the script passes. A chat message is a pair of role and content.
\<close>

datatype call =
    GenaiGenerateContent "string option" string string
      \<comment> \<open>\<open>genai.Client(api_key).models.generate_content(model, contents)\<close>\<close>
  | GenerativeaiGenerateContent string string string
      \<comment> \<open>\<open>genai.configure(api_key); GenerativeModel(model).generate_content(prompt)\<close>\<close>
  | OpenAIChat "string option" string "(string \<times> string) list"
      \<comment> \<open>\<open>OpenAI(api_key).chat.completions.create(model, messages)\<close>\<close>
  | AnthropicMessages "string option" string int "string option" "(string \<times> string) list"
      \<comment> \<open>\<open>Anthropic(api_key).messages.create(model, max_tokens, [system,] messages)\<close>\<close>
  | OpenAIImages "string option" string string string string
      \<comment> \<open>\<open>OpenAI(api_key).images.generate(model, prompt, size, quality, "b64_json", 1)\<close>\<close>
  | GenaiGenerateImages "string option" string string
      \<comment> \<open>\<open>genai.Client(api_key).models.generate_images(model, prompt, number_of_images=1)\<close>\<close>
  | RequestsPost string "(string \<times> string) list" payload
      \<comment> \<open>\<open>requests.post(url, headers, ...)\<close>\<close>

text \<open>
  What \<open>requests.post\<close> returns: the status code, \<open>response.text\<close>, \<open>response.content\<close>,
  and the outcome of evaluating
  \<open>base64.b64decode(response.json()["artifacts"][0]["base64"])\<close> on it.
\<close>

record http_response =
  status_code :: int
  resp_text :: string
  resp_content :: string
  artifact0 :: "exn + string"

type_synonym path = "string list"

datatype node = Dir | File string

record world =
  environ :: "string \<Rightarrow> string option"
    \<comment> \<open>\<open>os.environ.get\<close> / \<open>os.getenv\<close>\<close>
  import_result :: "string \<Rightarrow> exn option"
    \<comment> \<open>the exception an \<open>import\<close> of the module raises, if any\<close>
  text_reply :: "call \<Rightarrow> exn + string"
    \<comment> \<open>the text a text-generation call ends with, or what it raises\<close>
  image_reply :: "call \<Rightarrow> exn + string"
    \<comment> \<open>\<open>base64.b64decode(response.data[0].b64_json)\<close> of an OpenAI image call\<close>
  images_reply :: "call \<Rightarrow> exn + string list"
    \<comment> \<open>the bytes of each of \<open>response.generated_images\<close> of an Imagen call\<close>
  http_reply :: "call \<Rightarrow> exn + http_response"
  latency :: "call \<Rightarrow> nat"
    \<comment> \<open>how long the caller is blocked in the call\<close>
  os_error_text :: "string \<Rightarrow> path \<Rightarrow> string"
    \<comment> \<open>\<open>str(e)\<close> of the \<open>OSError\<close> for an errno name and a path\<close>
  mkdir_fault :: "path \<Rightarrow> string option"
    \<comment> \<open>the errno with which \<open>os.mkdir\<close> of the path is refused for a reason that is not
        in the directory tree (\<open>EACCES\<close>, \<open>EROFS\<close>, \<open>ENAMETOOLONG\<close>, ...), if any\<close>
  open_fault :: "path \<Rightarrow> string option"
    \<comment> \<open>the same for \<open>open(path, "wb")\<close>\<close>
  write_fault :: "path \<Rightarrow> string \<Rightarrow> (string \<times> nat) option"
    \<comment> \<open>the errno with which writing the bytes to the opened file fails (\<open>ENOSPC\<close>,
        \<open>EFBIG\<close>, \<open>EIO\<close>, ...) and the number of bytes written before, if any\<close>

record state =
  trace :: "call list"
  clock :: nat
  fs :: "path \<Rightarrow> node option"
  stdout :: "string list"

text \<open>
  A blocking call: it is appended to the log and the caller resumes \<open>latency\<close> later.
  The scripts start no thread, task or subprocess, so a statement begins when the one
  before it has finished.
\<close>

definition perform :: "world \<Rightarrow> call \<Rightarrow> state \<Rightarrow> state" where
  "perform w c s = s\<lparr>trace := trace s @ [c], clock := clock s + latency w c\<rparr>"

definition print :: "string \<Rightarrow> state \<Rightarrow> state" where
  "print line s = s\<lparr>stdout := stdout s @ [line]\<rparr>"

text \<open>Python's truth value of an \<open>Optional[str]\<close>: \<open>None\<close> and \<open>""\<close> are false.\<close>

fun truthy :: "string option \<Rightarrow> bool" where
  "truthy None = False"
| "truthy (Some v) = (v \<noteq> [])"

section \<open>The result dictionary\<close>

text \<open>
  A Python \<open>dict\<close> keeps its keys in insertion order; \<open>d[k] = v\<close> replaces the value of a
  key that is present and appends the key otherwise.
\<close>

type_synonym results = "(string \<times> string) list"

fun dict_set :: "string \<Rightarrow> string \<Rightarrow> results \<Rightarrow> results" where
  "dict_set k v [] = [(k, v)]"
| "dict_set k v ((k', v') # d) = (if k' = k then (k, v) # d else (k', v') # dict_set k v d)"

text \<open>
  One block
  \<^verbatim>\<open>
    try:
        results[key] = adapter(...)
    except Exception as e:
        results[key] = f"Error: {e}"
  \<close>
  of \<open>query_all\<close> and \<open>generate_all\<close>.
\<close>

definition entry_of :: "exn + string \<Rightarrow> string" where
  "entry_of r = (case r of Inr v \<Rightarrow> v | Inl e \<Rightarrow> ''Error: '' @ str_exn e)"

definition try_store ::
  "string \<Rightarrow> (state \<Rightarrow> (exn + string) \<times> state) \<Rightarrow> results \<Rightarrow> state \<Rightarrow> results \<times> state" where
  "try_store key adapter res s =
     (case adapter s of (r, s') \<Rightarrow> (dict_set key (entry_of r) res, s'))"

section \<open>claude/llm\_query.py and claude/llm\_query\_v2.py\<close>

text \<open>
  The two files have the same function bodies and differ in the default model names, which
  the caller of an adapter supplies here.
\<close>

definition query_gemini :: "world \<Rightarrow> string \<Rightarrow> string \<Rightarrow> state \<Rightarrow> (exn + string) \<times> state" where
  "query_gemini w prompt model s =
     (case import_result w ''google.genai'' of
        Some e \<Rightarrow> (Inl e, s)
      | None \<Rightarrow>
          (let c = GenaiGenerateContent (environ w ''GEMINI_API_KEY'') model prompt
           in (text_reply w c, perform w c s)))"

definition query_openai ::
  "world \<Rightarrow> string \<Rightarrow> string \<Rightarrow> string option \<Rightarrow> state \<Rightarrow> (exn + string) \<times> state" where
  "query_openai w prompt model system_prompt s =
     (case import_result w ''openai'' of
        Some e \<Rightarrow> (Inl e, s)
      | None \<Rightarrow>
          (let messages = (case system_prompt of
                             None \<Rightarrow> []
                           | Some sp \<Rightarrow> if sp \<noteq> [] then [(''system'', sp)] else [])
                          @ [(''user'', prompt)];
               c = OpenAIChat (environ w ''OPENAI_API_KEY'') model messages
           in (text_reply w c, perform w c s)))"

definition query_anthropic ::
  "world \<Rightarrow> string \<Rightarrow> string \<Rightarrow> string option \<Rightarrow> int \<Rightarrow> state \<Rightarrow> (exn + string) \<times> state" where
  "query_anthropic w prompt model system_prompt max_tokens s =
     (case import_result w ''anthropic'' of
        Some e \<Rightarrow> (Inl e, s)
      | None \<Rightarrow>
          (let c = AnthropicMessages (environ w ''ANTHROPIC_API_KEY'') model max_tokens
                     (if truthy system_prompt then system_prompt else None)
                     [(''user'', prompt)]
           in (text_reply w c, perform w c s)))"

text \<open>The default arguments of the three adapters, per file.\<close>

record llm_defaults =
  gemini_model :: string
  openai_model :: string
  anthropic_model :: string

definition llm_query_defaults :: llm_defaults where
  "llm_query_defaults =
     \<lparr>gemini_model = ''gemini-2.0-flash'', openai_model = ''gpt-4o'',
      anthropic_model = ''claude-sonnet-4-20250514''\<rparr>"

definition llm_query_v2_defaults :: llm_defaults where
  "llm_query_v2_defaults =
     \<lparr>gemini_model = ''gemini-3-flash-preview'', openai_model = ''gpt-5.2'',
      anthropic_model = ''claude-opus-4-5-20251101''\<rparr>"

definition query_all_with ::
  "llm_defaults \<Rightarrow> world \<Rightarrow> string \<Rightarrow> state \<Rightarrow> (exn + results) \<times> state" where
  "query_all_with d w prompt s0 =
     (let res0 = [];
          (res1, s1) = try_store ''gemini'' (query_gemini w prompt (gemini_model d)) res0 s0;
          (res2, s2) = try_store ''openai'' (query_openai w prompt (openai_model d) None) res1 s1;
          (res3, s3) = try_store ''anthropic''
                         (query_anthropic w prompt (anthropic_model d) None 1024) res2 s2
      in (Inr res3, s3))"

definition query_all :: "world \<Rightarrow> string \<Rightarrow> state \<Rightarrow> (exn + results) \<times> state" where
  "query_all = query_all_with llm_query_defaults"

definition query_all_v2 :: "world \<Rightarrow> string \<Rightarrow> state \<Rightarrow> (exn + results) \<times> state" where
  "query_all_v2 = query_all_with llm_query_v2_defaults"

text \<open>
  The script body under \<open>if __name__ == "__main__"\<close>. \<open>argparse\<close> has already checked
  the provider against its \<open>choices\<close>. The process exit code is 0 when the body runs to
  its end and 1 when an exception leaves it.
\<close>

datatype provider_choice = PGemini | POpenai | PAnthropic | PAll

record cli_args =
  arg_prompt :: string
  arg_provider :: provider_choice
  arg_model :: "string option"

text \<open>\<open>str.upper\<close> and \<open>str.lower\<close>, on the ASCII letters.\<close>

definition upper_char :: "char \<Rightarrow> char" where
  "upper_char c =
     (case map_of (zip ''abcdefghijklmnopqrstuvwxyz'' ''ABCDEFGHIJKLMNOPQRSTUVWXYZ'') c of
        Some u \<Rightarrow> u
      | None \<Rightarrow> c)"

definition lower_char :: "char \<Rightarrow> char" where
  "lower_char c =
     (case map_of (zip ''ABCDEFGHIJKLMNOPQRSTUVWXYZ'' ''abcdefghijklmnopqrstuvwxyz'') c of
        Some l \<Rightarrow> l
      | None \<Rightarrow> c)"

definition upper :: "string \<Rightarrow> string" where
  "upper = map upper_char"

definition lower :: "string \<Rightarrow> string" where
  "lower = map lower_char"

fun print_results :: "results \<Rightarrow> state \<Rightarrow> state" where
  "print_results [] s = s"
| "print_results ((provider, response) # rest) s =
     print_results rest
       (print response
         (print (replicate 50 CHR ''='')
           (print (upper provider @ '':'')
             (print (CHR 0x0A # replicate 50 CHR ''='') s))))"

text \<open>\<open>x or d\<close> for an optional string \<open>x\<close>.\<close>

fun or_default :: "string option \<Rightarrow> string \<Rightarrow> string" where
  "or_default None d = d"
| "or_default (Some v) d = (if v \<noteq> [] then v else d)"

definition llm_query_main_with :: "llm_defaults \<Rightarrow> world \<Rightarrow> cli_args \<Rightarrow> state \<Rightarrow> int \<times> state" where
  "llm_query_main_with d w args s =
     (if arg_provider args = PAll then
        (case query_all_with d w (arg_prompt args) s of
           (Inr res, s') \<Rightarrow> (0, print_results res s')
         | (Inl e, s') \<Rightarrow> (1, s'))
      else
        (case (case arg_provider args of
                 PGemini \<Rightarrow>
                   query_gemini w (arg_prompt args) (or_default (arg_model args) (gemini_model d)) s
               | POpenai \<Rightarrow>
                   query_openai w (arg_prompt args) (or_default (arg_model args) (openai_model d))
                     None s
               | _ \<Rightarrow>
                   query_anthropic w (arg_prompt args)
                     (or_default (arg_model args) (anthropic_model d)) None 1024 s) of
           (Inr t, s') \<Rightarrow> (0, print t s')
         | (Inl e, s') \<Rightarrow> (1, s')))"

definition llm_query_main :: "world \<Rightarrow> cli_args \<Rightarrow> state \<Rightarrow> int \<times> state" where
  "llm_query_main = llm_query_main_with llm_query_defaults"

definition llm_query_main_v2 :: "world \<Rightarrow> cli_args \<Rightarrow> state \<Rightarrow> int \<times> state" where
  "llm_query_main_v2 = llm_query_main_with llm_query_v2_defaults"

section \<open>query\_llms.py and query\_llms\_v2.py\<close>

text \<open>
  The functions of these two files carry the prefix \<open>ql_\<close> here, since their names are
  those of the adapters above. Again the two files differ only in the default models
  and in the wording of what \<open>main\<close> prints.
\<close>

text \<open>
  The two handlers that close the \<open>try\<close> of every adapter:
  \<^verbatim>\<open>
    except ImportError:
        print("Error: ... package not installed. Install with: pip install ...")
        return None
    except Exception as e:
        print(f"Error querying ...: {e}")
        return None
  \<close>
\<close>

definition ql_handle :: "string \<Rightarrow> string \<Rightarrow> exn \<Rightarrow> state \<Rightarrow> (exn + string option) \<times> state" where
  "ql_handle package vendor e s =
     (if exn_class_of e = ImportError then
        (Inr None, print (''Error: '' @ package @ '' package not installed. Install with: pip install ''
                          @ package) s)
      else
        (Inr None, print (''Error querying '' @ vendor @ '': '' @ str_exn e) s))"

definition ql_not_set :: "string \<Rightarrow> state \<Rightarrow> (exn + string option) \<times> state" where
  "ql_not_set var s =
     (Inr None, print (''Error: '' @ var @ '' environment variable not set'') s)"

definition ql_query_gemini ::
  "world \<Rightarrow> string \<Rightarrow> string \<Rightarrow> state \<Rightarrow> (exn + string option) \<times> state" where
  "ql_query_gemini w prompt model s =
     (case import_result w ''google.generativeai'' of
        Some e \<Rightarrow> ql_handle ''google-generativeai'' ''Gemini'' e s
      | None \<Rightarrow>
          (let api_key = environ w ''GOOGLE_API_KEY'' in
           if \<not> truthy api_key then ql_not_set ''GOOGLE_API_KEY'' s
           else
             (let c = GenerativeaiGenerateContent (the api_key) model prompt; s' = perform w c s
              in case text_reply w c of
                   Inr t \<Rightarrow> (Inr (Some t), s')
                 | Inl e \<Rightarrow> ql_handle ''google-generativeai'' ''Gemini'' e s')))"

definition ql_query_openai ::
  "world \<Rightarrow> string \<Rightarrow> string \<Rightarrow> state \<Rightarrow> (exn + string option) \<times> state" where
  "ql_query_openai w prompt model s =
     (case import_result w ''openai'' of
        Some e \<Rightarrow> ql_handle ''openai'' ''OpenAI'' e s
      | None \<Rightarrow>
          (let api_key = environ w ''OPENAI_API_KEY'' in
           if \<not> truthy api_key then ql_not_set ''OPENAI_API_KEY'' s
           else
             (let c = OpenAIChat api_key model [(''user'', prompt)]; s' = perform w c s
              in case text_reply w c of
                   Inr t \<Rightarrow> (Inr (Some t), s')
                 | Inl e \<Rightarrow> ql_handle ''openai'' ''OpenAI'' e s')))"

definition ql_query_anthropic ::
  "world \<Rightarrow> string \<Rightarrow> string \<Rightarrow> state \<Rightarrow> (exn + string option) \<times> state" where
  "ql_query_anthropic w prompt model s =
     (case import_result w ''anthropic'' of
        Some e \<Rightarrow> ql_handle ''anthropic'' ''Anthropic'' e s
      | None \<Rightarrow>
          (let api_key = environ w ''ANTHROPIC_API_KEY'' in
           if \<not> truthy api_key then ql_not_set ''ANTHROPIC_API_KEY'' s
           else
             (let c = AnthropicMessages api_key model 4096 None [(''user'', prompt)];
                  s' = perform w c s
              in case text_reply w c of
                   Inr t \<Rightarrow> (Inr (Some t), s')
                 | Inl e \<Rightarrow> ql_handle ''anthropic'' ''Anthropic'' e s')))"

text \<open>What \<open>main\<close> prints and defaults to, per file.\<close>

record ql_config =
  usage :: "string list"
  all_header :: string
  default_models :: llm_defaults

definition query_llms_config :: ql_config where
  "query_llms_config =
     \<lparr>usage =
        [''Usage: python query_llms.py '<prompt>' [provider] [model]'',
         CHR 0x0A # ''Providers: gemini, openai, anthropic'',
         CHR 0x0A # ''Example models:'',
         ''  Gemini: gemini-1.5-pro, gemini-1.5-flash, gemini-pro'',
         ''  OpenAI: gpt-4o, gpt-4-turbo, gpt-3.5-turbo, o1-preview, o1-mini'',
         ''  Anthropic: claude-3-5-sonnet-20241022, claude-3-5-haiku-20241022'',
         CHR 0x0A # ''Example:'',
         ''  python query_llms.py 'What is AI?' gemini gemini-1.5-pro''],
      all_header = ''Querying all providers...'' @ [CHR 0x0A],
      default_models =
        \<lparr>gemini_model = ''gemini-1.5-pro'', openai_model = ''gpt-4o'',
         anthropic_model = ''claude-3-5-sonnet-20241022''\<rparr>\<rparr>"

definition query_llms_v2_config :: ql_config where
  "query_llms_v2_config =
     \<lparr>usage =
        [''Usage: python query_llms_v2.py '<prompt>' [provider] [model]'',
         CHR 0x0A # ''Providers: gemini, openai, anthropic'',
         CHR 0x0A # ''Example models (latest versions):'',
         ''  Gemini: gemini-2.0-flash-exp, gemini-2.0-flash-thinking-exp, gemini-2.5-pro'',
         ''  OpenAI: gpt-4o-2025-01-07, gpt-4o, o3, o1-preview, o1-mini'',
         ''  Anthropic: claude-3-7-sonnet-20250224, claude-opus-4.5-20251124, claude-3-5-sonnet-20241022'',
         CHR 0x0A # ''Example:'',
         ''  python query_llms_v2.py 'What is AI?' gemini gemini-2.0-flash-exp''],
      all_header = ''Querying all providers with latest models...'' @ [CHR 0x0A],
      default_models =
        \<lparr>gemini_model = ''gemini-2.0-flash-exp'', openai_model = ''gpt-4o-2025-01-07'',
         anthropic_model = ''claude-3-7-sonnet-20250224''\<rparr>\<rparr>"

fun print_lines :: "string list \<Rightarrow> state \<Rightarrow> state" where
  "print_lines [] s = s"
| "print_lines (l # ls) s = print_lines ls (print l s)"

text \<open>
  The end of the single-provider branch:
  \<^verbatim>\<open>
    if response:
        print("\nResponse:")
        print(response)
    else:
        sys.exit(1)
  \<close>
  An exception that leaves an adapter would leave \<open>main\<close> too and end the process with
  exit code 1.
\<close>

definition ql_report :: "(exn + string option) \<times> state \<Rightarrow> int \<times> state" where
  "ql_report rs =
     (case rs of
        (Inl e, s) \<Rightarrow> (1, s)
      | (Inr response, s) \<Rightarrow>
          if truthy response then (0, print (the response) (print (CHR 0x0A # ''Response:'') s))
          else (1, s))"

text \<open>
  One block of the all-providers branch: the banner, the call, and
  \<open>if response: print(response)\<close>.
\<close>

definition ql_block ::
  "string \<Rightarrow> (state \<Rightarrow> (exn + string option) \<times> state) \<Rightarrow> state \<Rightarrow> (exn + unit) \<times> state" where
  "ql_block title adapter s =
     (case adapter (print_lines [replicate 60 CHR ''='', title, replicate 60 CHR ''=''] s) of
        (Inl e, s') \<Rightarrow> (Inl e, s')
      | (Inr response, s') \<Rightarrow>
          (Inr (), if truthy response then print (the response) s' else s'))"

definition ql_main_with :: "ql_config \<Rightarrow> world \<Rightarrow> string list \<Rightarrow> state \<Rightarrow> int \<times> state" where
  "ql_main_with cfg w argv s =
     (if length argv < 2 then (1, print_lines (usage cfg) s)
      else
        (let prompt = argv ! 1;
             provider = (if length argv > 2 then Some (lower (argv ! 2)) else None);
             model = (if length argv > 3 then Some (argv ! 3) else None);
             dm = default_models cfg
         in
         if truthy provider then
           (if the provider = ''gemini'' then
              (let model = or_default model (gemini_model dm)
               in ql_report (ql_query_gemini w prompt model
                               (print (''Querying Gemini ('' @ model @ '')...'') s)))
            else if the provider = ''openai'' then
              (let model = or_default model (openai_model dm)
               in ql_report (ql_query_openai w prompt model
                               (print (''Querying OpenAI ('' @ model @ '')...'') s)))
            else if the provider = ''anthropic'' then
              (let model = or_default model (anthropic_model dm)
               in ql_report (ql_query_anthropic w prompt model
                               (print (''Querying Anthropic ('' @ model @ '')...'') s)))
            else (1, print (''Unknown provider: '' @ the provider) s))
         else
           (case ql_block ''GEMINI'' (ql_query_gemini w prompt (gemini_model dm))
                   (print (all_header cfg) s) of
              (Inl e, s1) \<Rightarrow> (1, s1)
            | (Inr u1, s1) \<Rightarrow>
                (case ql_block ''OPENAI'' (ql_query_openai w prompt (openai_model dm))
                        (print [] s1) of
                   (Inl e, s2) \<Rightarrow> (1, s2)
                 | (Inr u2, s2) \<Rightarrow>
                     (case ql_block ''ANTHROPIC''
                             (ql_query_anthropic w prompt (anthropic_model dm)) (print [] s2) of
                        (Inl e, s3) \<Rightarrow> (1, s3)
                      | (Inr u3, s3) \<Rightarrow> (0, s3))))))"

definition ql_main :: "world \<Rightarrow> string list \<Rightarrow> state \<Rightarrow> int \<times> state" where
  "ql_main = ql_main_with query_llms_config"

definition ql_main_v2 :: "world \<Rightarrow> string list \<Rightarrow> state \<Rightarrow> int \<times> state" where
  "ql_main_v2 = ql_main_with query_llms_v2_config"

section \<open>The file system\<close>

text \<open>
  A path is the list of its components below the current directory, which is the empty
  list and always a directory. \<open>str_of_path\<close> is \<open>str(Path(...))\<close>. What the operating
  system refuses for a reason outside the directory tree (permissions, a read-only or
  full disk, a name too long) is the world's to say: \<open>mkdir_fault\<close>, \<open>open_fault\<close>,
  \<open>write_fault\<close>. Symbolic links are outside the model.
\<close>

fun join_path :: "path \<Rightarrow> string" where
  "join_path [] = []"
| "join_path [c] = c"
| "join_path (c # cs) = c @ ''/'' @ join_path cs"

definition str_of_path :: "path \<Rightarrow> string" where
  "str_of_path p = (if p = [] then ''.'' else join_path p)"

definition os_error :: "world \<Rightarrow> string \<Rightarrow> path \<Rightarrow> exn" where
  "os_error w errno p = Exn OSError (os_error_text w errno p)"

text \<open>
  Path resolution: from the directory \<open>q\<close>, walk down the components \<open>cs\<close>. Each must be a
  directory; the first that is missing gives \<open>ENOENT\<close>, the first that is a file
  \<open>ENOTDIR\<close>.
\<close>

fun dir_walk :: "(path \<Rightarrow> node option) \<Rightarrow> path \<Rightarrow> path \<Rightarrow> string option" where
  "dir_walk f q [] = None"
| "dir_walk f q (c # cs) =
     (case f (q @ [c]) of
        None \<Rightarrow> Some ''ENOENT''
      | Some (File b) \<Rightarrow> Some ''ENOTDIR''
      | Some Dir \<Rightarrow> dir_walk f (q @ [c]) cs)"

definition is_dir :: "(path \<Rightarrow> node option) \<Rightarrow> path \<Rightarrow> bool" where
  "is_dir f p = (dir_walk f [] p = None)"

definition parent_error :: "(path \<Rightarrow> node option) \<Rightarrow> path \<Rightarrow> string option" where
  "parent_error f p = dir_walk f [] (butlast p)"

text \<open>The paths at which a file system has a directory node.\<close>

definition dirs :: "(path \<Rightarrow> node option) \<Rightarrow> path set" where
  "dirs f = {p. f p = Some Dir}"

text \<open>\<open>os.mkdir(p)\<close>: the errno it fails with, if it fails.\<close>

definition os_mkdir :: "world \<Rightarrow> path \<Rightarrow> state \<Rightarrow> string option \<times> state" where
  "os_mkdir w p s =
     (if p = [] then (Some ''EEXIST'', s)
      else
        (case mkdir_fault w p of
           Some errno \<Rightarrow> (Some errno, s)
         | None \<Rightarrow>
             (case parent_error (fs s) p of
                Some errno \<Rightarrow> (Some errno, s)
              | None \<Rightarrow>
                  (case fs s p of
                     Some n \<Rightarrow> (Some ''EEXIST'', s)
                   | None \<Rightarrow> (None, s\<lparr>fs := (fs s)(p \<mapsto> Dir)\<rparr>)))))"

text \<open>
  \<open>Path(p).mkdir(exist_ok=True)\<close>, as \<open>pathlib\<close> has it with \<open>parents\<close> left at \<open>False\<close>:
  \<^verbatim>\<open>
    try:
        os.mkdir(self, mode)
    except FileNotFoundError:
        raise
    except OSError:
        if not exist_ok or not self.is_dir():
            raise
  \<close>
  A missing parent is an error, and any other failure is forgiven only when the path is a
  directory that is already there.
\<close>

definition mkdir_exist_ok :: "world \<Rightarrow> path \<Rightarrow> state \<Rightarrow> (exn + unit) \<times> state" where
  "mkdir_exist_ok w p s =
     (case os_mkdir w p s of
        (None, s') \<Rightarrow> (Inr (), s')
      | (Some errno, s') \<Rightarrow>
          if errno = ''ENOENT'' then (Inl (os_error w errno p), s')
          else if is_dir (fs s') p then (Inr (), s')
          else (Inl (os_error w errno p), s'))"

text \<open>
  \<open>Path(p).write_bytes(data)\<close>: \<open>open(p, "wb")\<close> creates the file or empties it, then the
  bytes are written. A failure of the \<open>open\<close> leaves the file system as it was; a failure
  of the write leaves the file with the bytes written so far.
\<close>

definition write_bytes :: "world \<Rightarrow> path \<Rightarrow> string \<Rightarrow> state \<Rightarrow> (exn + unit) \<times> state" where
  "write_bytes w p data s =
     (if p = [] then (Inl (os_error w ''EISDIR'' p), s)
      else
        (case open_fault w p of
           Some errno \<Rightarrow> (Inl (os_error w errno p), s)
         | None \<Rightarrow>
             (case parent_error (fs s) p of
                Some errno \<Rightarrow> (Inl (os_error w errno p), s)
              | None \<Rightarrow>
                  (case fs s p of
                     Some Dir \<Rightarrow> (Inl (os_error w ''EISDIR'' p), s)
                   | _ \<Rightarrow>
                       (case write_fault w p data of
                          Some (errno, n) \<Rightarrow>
                            (Inl (os_error w errno p),
                             s\<lparr>fs := (fs s)(p \<mapsto> File (take n data))\<rparr>)
                        | None \<Rightarrow> (Inr (), s\<lparr>fs := (fs s)(p \<mapsto> File data)\<rparr>))))))"

text \<open>
  The common end of the image adapters:
  \<^verbatim>\<open>
    Path(output_path).write_bytes(image_data)
    return output_path
  \<close>
\<close>

definition save_image :: "world \<Rightarrow> path \<Rightarrow> string \<Rightarrow> state \<Rightarrow> (exn + string) \<times> state" where
  "save_image w output_path image_data s =
     (case write_bytes w output_path image_data s of
        (Inl e, s') \<Rightarrow> (Inl e, s')
      | (Inr u, s') \<Rightarrow> (Inr (str_of_path output_path), s'))"

section \<open>claude/image\_generation.py and claude/image\_generation\_v2.py\<close>

text \<open>
  An adapter takes \<open>output_path\<close> as a path; the string it returns is that path as
  \<open>generate_all\<close> wrote it, \<open>str(output_dir / name)\<close>.
  \<open>generate_dalle\<close> is also \<open>generate_openai_image\<close> of the second file, which has the same
  body and another default model.
\<close>

definition generate_dalle ::
  "world \<Rightarrow> string \<Rightarrow> path \<Rightarrow> string \<Rightarrow> string \<Rightarrow> string \<Rightarrow> state \<Rightarrow> (exn + string) \<times> state" where
  "generate_dalle w prompt output_path model image_size quality s =
     (case import_result w ''openai'' of
        Some e \<Rightarrow> (Inl e, s)
      | None \<Rightarrow>
          (let c = OpenAIImages (environ w ''OPENAI_API_KEY'') model prompt image_size quality;
               s' = perform w c s
           in case image_reply w c of
                Inl e \<Rightarrow> (Inl e, s')
              | Inr image_data \<Rightarrow> save_image w output_path image_data s'))"

definition generate_imagen ::
  "world \<Rightarrow> string \<Rightarrow> path \<Rightarrow> string \<Rightarrow> state \<Rightarrow> (exn + string) \<times> state" where
  "generate_imagen w prompt output_path model s =
     (case import_result w ''google.genai'' of
        Some e \<Rightarrow> (Inl e, s)
      | None \<Rightarrow>
          (case import_result w ''google.genai.types'' of
             Some e \<Rightarrow> (Inl e, s)
           | None \<Rightarrow>
               (let c = GenaiGenerateImages (environ w ''GEMINI_API_KEY'') model prompt;
                    s' = perform w c s
                in case images_reply w c of
                     Inl e \<Rightarrow> (Inl e, s')
                   | Inr generated_images \<Rightarrow>
                       (case generated_images of
                          image_data # rest \<Rightarrow> save_image w output_path image_data s'
                        | [] \<Rightarrow> (Inl (Exn ValueError ''No image generated''), s')))))"

text \<open>\<open>f"Bearer {api_key}"\<close>: an absent key is formatted as \<open>None\<close>.\<close>

definition bearer :: "string option \<Rightarrow> string" where
  "bearer api_key = ''Bearer '' @ (case api_key of None \<Rightarrow> ''None'' | Some k \<Rightarrow> k)"

text \<open>The request that \<open>generate_stability\<close> posts, in the first and in the second file.\<close>

definition stability_request :: "world \<Rightarrow> string \<Rightarrow> string \<Rightarrow> int \<Rightarrow> int \<Rightarrow> call" where
  "stability_request w prompt model width height =
     RequestsPost
       (''https://api.stability.ai/v1/generation/'' @ model @ ''/text-to-image'')
       [(''Authorization'', bearer (environ w ''STABILITY_API_KEY'')),
        (''Content-Type'', ''application/json''),
        (''Accept'', ''application/json'')]
       (JsonBody
          [(''text_prompts'',
              JList [JObj [(''text'', JStr prompt), (''weight'', JFloat 10 (- 1))]]),
           (''cfg_scale'', JInt 7),
           (''width'', JInt width),
           (''height'', JInt height),
           (''samples'', JInt 1),
           (''steps'', JInt 30)])"

definition stability_request_v2 :: "world \<Rightarrow> string \<Rightarrow> string \<Rightarrow> int \<Rightarrow> int \<Rightarrow> call" where
  "stability_request_v2 w prompt model width height =
     RequestsPost
       ''https://api.stability.ai/v2beta/stable-image/generate/sd3''
       [(''Authorization'', bearer (environ w ''STABILITY_API_KEY'')),
        (''Accept'', ''image/*'')]
       (FormBody
          [(''none'', [])]
          [(''prompt'', JStr prompt),
           (''model'', JStr model),
           (''width'', JInt width),
           (''height'', JInt height),
           (''output_format'', JStr ''png'')])"

definition generate_stability ::
  "world \<Rightarrow> string \<Rightarrow> path \<Rightarrow> string \<Rightarrow> int \<Rightarrow> int \<Rightarrow> state \<Rightarrow> (exn + string) \<times> state" where
  "generate_stability w prompt output_path model width height s =
     (let c = stability_request w prompt model width height;
          s' = perform w c s
      in case http_reply w c of
           Inl e \<Rightarrow> (Inl e, s')
         | Inr response \<Rightarrow>
             if status_code response \<noteq> 200 then
               (Inl (Exn ValueError (''Stability API error: '' @ resp_text response)), s')
             else
               (case artifact0 response of
                  Inl e \<Rightarrow> (Inl e, s')
                | Inr image_data \<Rightarrow> save_image w output_path image_data s'))"

definition generate_stability_v2 ::
  "world \<Rightarrow> string \<Rightarrow> path \<Rightarrow> string \<Rightarrow> int \<Rightarrow> int \<Rightarrow> state \<Rightarrow> (exn + string) \<times> state" where
  "generate_stability_v2 w prompt output_path model width height s =
     (let c = stability_request_v2 w prompt model width height;
          s' = perform w c s
      in case http_reply w c of
           Inl e \<Rightarrow> (Inl e, s')
         | Inr response \<Rightarrow>
             if status_code response \<noteq> 200 then
               (Inl (Exn ValueError (''Stability API error: '' @ resp_text response)), s')
             else save_image w output_path (resp_content response) s')"

text \<open>
  The shape shared by the image adapters: some imports and calls that leave the file
  system and standard output alone, giving image bytes or an exception, and then, with
  bytes in hand, the one \<open>save_image\<close>.
\<close>

definition image_adapter :: "world \<Rightarrow> path \<Rightarrow> (state \<Rightarrow> (exn + string) \<times> state) \<Rightarrow> bool" where
  "image_adapter w out A =
     (\<exists>pre calls. \<forall>s.
        fs (calls s) = fs s \<and> stdout (calls s) = stdout s
        \<and> A s = (case pre of
                   Inl e \<Rightarrow> (Inl e, calls s)
                 | Inr image_data \<Rightarrow> save_image w out image_data (calls s)))"

text \<open>
  \<open>generate_all\<close>. The \<open>mkdir\<close> stands before the first \<open>try\<close>, so what it raises leaves
  the function.
\<close>

definition generate_all :: "world \<Rightarrow> string \<Rightarrow> path \<Rightarrow> state \<Rightarrow> (exn + results) \<times> state" where
  "generate_all w prompt output_dir s =
     (let res0 = []
      in case mkdir_exist_ok w output_dir s of
           (Inl e, s0) \<Rightarrow> (Inl e, s0)
         | (Inr u, s0) \<Rightarrow>
             (let (res1, s1) =
                    try_store ''dalle''
                      (generate_dalle w prompt (output_dir @ [''dalle_output.png''])
                         ''dall-e-3'' ''1024x1024'' ''standard'') res0 s0;
                  (res2, s2) =
                    try_store ''imagen''
                      (generate_imagen w prompt (output_dir @ [''imagen_output.png''])
                         ''imagen-3.0-generate-002'') res1 s1;
                  (res3, s3) =
                    try_store ''stability''
                      (generate_stability w prompt (output_dir @ [''stability_output.png''])
                         ''stable-diffusion-xl-1024-v1-0'' 1024 1024) res2 s2
              in (Inr res3, s3)))"

definition generate_all_v2 :: "world \<Rightarrow> string \<Rightarrow> path \<Rightarrow> state \<Rightarrow> (exn + results) \<times> state" where
  "generate_all_v2 w prompt output_dir s =
     (let res0 = []
      in case mkdir_exist_ok w output_dir s of
           (Inl e, s0) \<Rightarrow> (Inl e, s0)
         | (Inr u, s0) \<Rightarrow>
             (let (res1, s1) =
                    try_store ''openai''
                      (generate_dalle w prompt (output_dir @ [''openai_output.png''])
                         ''gpt-image-1.5'' ''1024x1024'' ''standard'') res0 s0;
                  (res2, s2) =
                    try_store ''imagen''
                      (generate_imagen w prompt (output_dir @ [''imagen_output.png''])
                         ''imagen-4.0-generate-preview'') res1 s1;
                  (res3, s3) =
                    try_store ''stability''
                      (generate_stability_v2 w prompt (output_dir @ [''stability_output.png''])
                         ''sd3.5-large'' 1024 1024) res2 s2
              in (Inr res3, s3)))"

section \<open>Reading a run\<close>

text \<open>The entry of a provider in what a fan-out call returned.\<close>

definition entry :: "(exn + results) \<times> state \<Rightarrow> string \<Rightarrow> string option" where
  "entry run k = (case fst run of Inr res \<Rightarrow> map_of res k | Inl e \<Rightarrow> None)"




text \<open>
  \<open>sequential_run w s s'\<close>: from \<open>s\<close> to \<open>s'\<close> the log of calls has only grown, and the time
  that has passed is the sum of the latencies of the calls added: each call was waited
  for before the next began.
\<close>

definition sequential_run :: "world \<Rightarrow> state \<Rightarrow> state \<Rightarrow> bool" where
  "sequential_run w s s' =
     (take (length (trace s)) (trace s') = trace s
      \<and> clock s' = clock s + sum_list (map (latency w) (drop (length (trace s)) (trace s'))))"

section \<open>Example worlds\<close>

text \<open>
  \<open>example_world\<close>: every key is set, every import and every call succeeds, every call
  takes five units of time, and the operating system refuses nothing. \<open>keyless_world\<close>: no environment variable is set and the
  vendors turn every call down. \<open>init_state\<close>: nothing done yet, the current directory is
  empty.
\<close>

definition example_world :: world where
  "example_world =
     \<lparr>environ = (\<lambda>v. Some ''key''),
      import_result = (\<lambda>m. None),
      text_reply = (\<lambda>c. Inr ''ok''),
      image_reply = (\<lambda>c. Inr ''png''),
      images_reply = (\<lambda>c. Inr [''png'']),
      http_reply = (\<lambda>c. Inr \<lparr>status_code = 200, resp_text = ''{}'', resp_content = ''png'',
                                artifact0 = Inr ''png''\<rparr>),
      latency = (\<lambda>c. 5),
      os_error_text = (\<lambda>errno p. errno @ '': '' @ str_of_path p),
      mkdir_fault = (\<lambda>p. None),
      open_fault = (\<lambda>p. None),
      write_fault = (\<lambda>p data. None)\<rparr>"

definition keyless_world :: world where
  "keyless_world =
     example_world
       \<lparr>environ := (\<lambda>v. None),
        text_reply := (\<lambda>c. Inl (Exn OtherError ''authentication failed'')),
        image_reply := (\<lambda>c. Inl (Exn OtherError ''authentication failed'')),
        images_reply := (\<lambda>c. Inl (Exn OtherError ''authentication failed'')),
        http_reply := (\<lambda>c. Inr \<lparr>status_code = 401, resp_text = ''unauthorized'',
                                  resp_content = [], artifact0 = Inl (Exn OtherError ''artifacts'')\<rparr>)\<rparr>"

definition init_state :: state where
  "init_state = \<lparr>trace = [], clock = 0, fs = (\<lambda>p. None), stdout = []\<rparr>"


text \<open>\<open>full_disk_world\<close>: as \<open>example_world\<close>, but every write to an opened file fails at once.\<close>

definition full_disk_world :: world where
  "full_disk_world = example_world\<lparr>write_fault := (\<lambda>p data. Some (''ENOSPC'', 0))\<rparr>"

section \<open>Properties of the text adapters and of their fan-out\<close>

text \<open>
  The outcome of a text adapter of \<open>claude/llm_query.py\<close> does not depend on the state it
  starts in, and \<open>query_all\<close> is the three adapters run one after the other, each outcome
  stored under its key.
\<close>

lemma query_gemini_fst: "fst (query_gemini w p m s) = fst (query_gemini w p m s')"
  by (simp add: query_gemini_def Let_def split: option.splits)

lemma query_openai_fst: "fst (query_openai w p m sp s) = fst (query_openai w p m sp s')"
  by (simp add: query_openai_def Let_def split: option.splits)

lemma query_anthropic_fst: "fst (query_anthropic w p m sp mt s) = fst (query_anthropic w p m sp mt s')"
  by (simp add: query_anthropic_def Let_def split: option.splits)

lemma query_all_with_unfold:
  "query_all_with d w p s =
     (let g = query_gemini w p (gemini_model d) s;
          oa = query_openai w p (openai_model d) None (snd g);
          a = query_anthropic w p (anthropic_model d) None 1024 (snd oa)
      in (Inr [(''gemini'', entry_of (fst g)), (''openai'', entry_of (fst oa)),
               (''anthropic'', entry_of (fst a))], snd a))"
  by (simp add: query_all_with_def try_store_def Let_def split: prod.splits)

lemma query_all_with_fst:
  "fst (query_all_with d w p s) =
     Inr [(''gemini'', entry_of (fst (query_gemini w p (gemini_model d) s0))),
          (''openai'', entry_of (fst (query_openai w p (openai_model d) None s0))),
          (''anthropic'', entry_of (fst (query_anthropic w p (anthropic_model d) None 1024 s0)))]"
  using query_gemini_fst[of w p "gemini_model d" s s0]
    query_openai_fst[of w p "openai_model d" None
      "snd (query_gemini w p (gemini_model d) s)" s0]
    query_anthropic_fst[of w p "anthropic_model d" None 1024
      "snd (query_openai w p (openai_model d) None (snd (query_gemini w p (gemini_model d) s)))" s0]
  by (simp add: query_all_with_unfold Let_def)

lemma query_all_with_snd:
  "snd (query_all_with d w p s) =
     snd (query_anthropic w p (anthropic_model d) None 1024
       (snd (query_openai w p (openai_model d) None
         (snd (query_gemini w p (gemini_model d) s)))))"
  by (simp add: query_all_with_unfold Let_def)




section \<open>Properties of the adapters of query\_llms.py\<close>

lemma ql_handle_fst: "fst (ql_handle pk v e s) = Inr None"
  by (simp add: ql_handle_def)

lemma ql_query_gemini_result:
  "fst (ql_query_gemini w p m s) =
     Inr (case import_result w ''google.generativeai'' of
            Some e \<Rightarrow> None
          | None \<Rightarrow>
              (case environ w ''GOOGLE_API_KEY'' of
                 None \<Rightarrow> None
               | Some k \<Rightarrow>
                   if k = [] then None
                   else (case text_reply w (GenerativeaiGenerateContent k m p) of
                           Inl e \<Rightarrow> None
                         | Inr t \<Rightarrow> Some t)))"
  by (simp add: ql_query_gemini_def ql_handle_def ql_not_set_def Let_def
           split: option.splits sum.splits)

lemma ql_query_openai_result:
  "fst (ql_query_openai w p m s) =
     Inr (case import_result w ''openai'' of
            Some e \<Rightarrow> None
          | None \<Rightarrow>
              (case environ w ''OPENAI_API_KEY'' of
                 None \<Rightarrow> None
               | Some k \<Rightarrow>
                   if k = [] then None
                   else (case text_reply w (OpenAIChat (Some k) m [(''user'', p)]) of
                           Inl e \<Rightarrow> None
                         | Inr t \<Rightarrow> Some t)))"
  by (simp add: ql_query_openai_def ql_handle_def ql_not_set_def Let_def
           split: option.splits sum.splits)

lemma ql_query_anthropic_result:
  "fst (ql_query_anthropic w p m s) =
     Inr (case import_result w ''anthropic'' of
            Some e \<Rightarrow> None
          | None \<Rightarrow>
              (case environ w ''ANTHROPIC_API_KEY'' of
                 None \<Rightarrow> None
               | Some k \<Rightarrow>
                   if k = [] then None
                   else (case text_reply w (AnthropicMessages (Some k) m 4096 None [(''user'', p)]) of
                           Inl e \<Rightarrow> None
                         | Inr t \<Rightarrow> Some t)))"
  by (simp add: ql_query_anthropic_def ql_handle_def ql_not_set_def Let_def
           split: option.splits sum.splits)

lemma trace_print [simp]: "trace (print l s) = trace s"
  and clock_print [simp]: "clock (print l s) = clock s"
  and fs_print [simp]: "fs (print l s) = fs s"
  and stdout_print [simp]: "stdout (print l s) = stdout s @ [l]"
  by (simp_all add: print_def)

lemma ql_missing_key_gemini:
  assumes "\<not> truthy (environ w ''GOOGLE_API_KEY'')"
  shows "fst (ql_query_gemini w p m s) = Inr None"
    and "trace (snd (ql_query_gemini w p m s)) = trace s"
    and "clock (snd (ql_query_gemini w p m s)) = clock s"
    and "import_result w ''google.generativeai'' = None \<Longrightarrow>
         stdout (snd (ql_query_gemini w p m s))
           = stdout s @ [''Error: GOOGLE_API_KEY environment variable not set'']"
  using assms
  by (simp_all add: ql_query_gemini_def ql_handle_def ql_not_set_def split: option.splits)

lemma ql_missing_key_openai:
  assumes "\<not> truthy (environ w ''OPENAI_API_KEY'')"
  shows "fst (ql_query_openai w p m s) = Inr None"
    and "trace (snd (ql_query_openai w p m s)) = trace s"
    and "clock (snd (ql_query_openai w p m s)) = clock s"
    and "import_result w ''openai'' = None \<Longrightarrow>
         stdout (snd (ql_query_openai w p m s))
           = stdout s @ [''Error: OPENAI_API_KEY environment variable not set'']"
  using assms
  by (simp_all add: ql_query_openai_def ql_handle_def ql_not_set_def split: option.splits)

lemma ql_missing_key_anthropic:
  assumes "\<not> truthy (environ w ''ANTHROPIC_API_KEY'')"
  shows "fst (ql_query_anthropic w p m s) = Inr None"
    and "trace (snd (ql_query_anthropic w p m s)) = trace s"
    and "clock (snd (ql_query_anthropic w p m s)) = clock s"
    and "import_result w ''anthropic'' = None \<Longrightarrow>
         stdout (snd (ql_query_anthropic w p m s))
           = stdout s @ [''Error: ANTHROPIC_API_KEY environment variable not set'']"
  using assms
  by (simp_all add: ql_query_anthropic_def ql_handle_def ql_not_set_def split: option.splits)


text \<open>
  C9. Each per-provider function of \<open>query_llms.py\<close> and \<open>query_llms_v2.py\<close> returns and
  never raises, for every world, prompt, model and state. It returns the vendor's text
  only when the import succeeded, the API key is set and not empty, and the vendor call
  returned; in every other case (the import raised, the key is missing or empty, the
  vendor call raised) the value is the same \<open>None\<close>.
\<close>

theorem ql_adapters_collapse_errors_to_None:
  "fst (ql_query_gemini w p m s) =
     Inr (case import_result w ''google.generativeai'' of
            Some e \<Rightarrow> None
          | None \<Rightarrow>
              (case environ w ''GOOGLE_API_KEY'' of
                 None \<Rightarrow> None
               | Some k \<Rightarrow>
                   if k = [] then None
                   else (case text_reply w (GenerativeaiGenerateContent k m p) of
                           Inl e \<Rightarrow> None
                         | Inr t \<Rightarrow> Some t)))
   \<and> fst (ql_query_openai w p m s) =
     Inr (case import_result w ''openai'' of
            Some e \<Rightarrow> None
          | None \<Rightarrow>
              (case environ w ''OPENAI_API_KEY'' of
                 None \<Rightarrow> None
               | Some k \<Rightarrow>
                   if k = [] then None
                   else (case text_reply w (OpenAIChat (Some k) m [(''user'', p)]) of
                           Inl e \<Rightarrow> None
                         | Inr t \<Rightarrow> Some t)))
   \<and> fst (ql_query_anthropic w p m s) =
     Inr (case import_result w ''anthropic'' of
            Some e \<Rightarrow> None
          | None \<Rightarrow>
              (case environ w ''ANTHROPIC_API_KEY'' of
                 None \<Rightarrow> None
               | Some k \<Rightarrow>
                   if k = [] then None
                   else (case text_reply w (AnthropicMessages (Some k) m 4096 None [(''user'', p)]) of
                           Inl e \<Rightarrow> None
                         | Inr t \<Rightarrow> Some t)))"
  using ql_query_gemini_result [of w p m s] ql_query_openai_result [of w p m s]
    ql_query_anthropic_result [of w p m s]
  by blast

text \<open>
  C4, as the code has it. In \<open>query_llms.py\<close> and \<open>query_llms_v2.py\<close>, an adapter whose API
  key is absent or empty returns \<open>None\<close> without making any call: the log of calls and
  the clock are as before, and if the import succeeded the line printed is the
  \<open>environment variable not set\<close> message. (The adapters under \<open>claude/\<close> have no such
  check; see the counterexample that follows.)
\<close>

theorem ql_missing_key_fails_before_any_call:
  "(\<not> truthy (environ w ''GOOGLE_API_KEY'') \<longrightarrow>
      fst (ql_query_gemini w p m s) = Inr None
      \<and> trace (snd (ql_query_gemini w p m s)) = trace s
      \<and> clock (snd (ql_query_gemini w p m s)) = clock s
      \<and> (import_result w ''google.generativeai'' = None \<longrightarrow>
           stdout (snd (ql_query_gemini w p m s))
             = stdout s @ [''Error: GOOGLE_API_KEY environment variable not set'']))
   \<and> (\<not> truthy (environ w ''OPENAI_API_KEY'') \<longrightarrow>
      fst (ql_query_openai w p m s) = Inr None
      \<and> trace (snd (ql_query_openai w p m s)) = trace s
      \<and> clock (snd (ql_query_openai w p m s)) = clock s
      \<and> (import_result w ''openai'' = None \<longrightarrow>
           stdout (snd (ql_query_openai w p m s))
             = stdout s @ [''Error: OPENAI_API_KEY environment variable not set'']))
   \<and> (\<not> truthy (environ w ''ANTHROPIC_API_KEY'') \<longrightarrow>
      fst (ql_query_anthropic w p m s) = Inr None
      \<and> trace (snd (ql_query_anthropic w p m s)) = trace s
      \<and> clock (snd (ql_query_anthropic w p m s)) = clock s
      \<and> (import_result w ''anthropic'' = None \<longrightarrow>
           stdout (snd (ql_query_anthropic w p m s))
             = stdout s @ [''Error: ANTHROPIC_API_KEY environment variable not set'']))"
  using ql_missing_key_gemini [of w p m s] ql_missing_key_openai [of w p m s]
    ql_missing_key_anthropic [of w p m s]
  by blast

theorem ql_missing_key_fails_before_any_call_witness:
  "\<not> truthy (environ keyless_world ''GOOGLE_API_KEY'')
   \<and> \<not> truthy (environ keyless_world ''OPENAI_API_KEY'')
   \<and> \<not> truthy (environ keyless_world ''ANTHROPIC_API_KEY'')
   \<and> import_result keyless_world ''google.generativeai'' = None
   \<and> fst (ql_query_gemini keyless_world ''hi'' ''gemini-1.5-pro'' init_state) = Inr None
   \<and> trace (snd (ql_query_gemini keyless_world ''hi'' ''gemini-1.5-pro'' init_state)) = []
   \<and> stdout (snd (ql_query_gemini keyless_world ''hi'' ''gemini-1.5-pro'' init_state))
       = [''Error: GOOGLE_API_KEY environment variable not set'']
   \<and> fst (ql_query_openai keyless_world ''hi'' ''gpt-4o'' init_state) = Inr None
   \<and> trace (snd (ql_query_openai keyless_world ''hi'' ''gpt-4o'' init_state)) = []
   \<and> fst (ql_query_anthropic keyless_world ''hi'' ''claude-3-5-sonnet-20241022'' init_state)
       = Inr None
   \<and> trace (snd (ql_query_anthropic keyless_world ''hi'' ''claude-3-5-sonnet-20241022''
                    init_state)) = []"
proof -
  have k: "\<not> truthy (environ keyless_world ''GOOGLE_API_KEY'')"
    "\<not> truthy (environ keyless_world ''OPENAI_API_KEY'')"
    "\<not> truthy (environ keyless_world ''ANTHROPIC_API_KEY'')"
    "import_result keyless_world ''google.generativeai'' = None"
    by (simp_all add: keyless_world_def example_world_def)
  have i: "trace init_state = []" "stdout init_state = []"
    by (simp_all add: init_state_def)
  note T1 = ql_missing_key_fails_before_any_call
    [of keyless_world "''hi''" "''gemini-1.5-pro''" init_state]
  note T2 = ql_missing_key_fails_before_any_call
    [of keyless_world "''hi''" "''gpt-4o''" init_state]
  note T3 = ql_missing_key_fails_before_any_call
    [of keyless_world "''hi''" "''claude-3-5-sonnet-20241022''" init_state]
  show ?thesis
    using k i T1 T2 T3 by simp
qed

text \<open>
  Against C4 as stated for every adapter: \<open>generate_stability\<close> of
  \<open>claude/image_generation.py\<close> does not look at the key before it posts. With
  \<open>STABILITY_API_KEY\<close> unset the HTTP request is made, carrying \<open>Bearer None\<close>, and the
  failure is the \<open>ValueError\<close> raised after the vendor's answer.
\<close>

theorem stability_posts_without_key:
  "environ keyless_world ''STABILITY_API_KEY'' = None
   \<and> trace (snd (generate_stability keyless_world ''a cat'' [''stability_output.png'']
                    ''stable-diffusion-xl-1024-v1-0'' 1024 1024 init_state))
       = [RequestsPost
            ''https://api.stability.ai/v1/generation/stable-diffusion-xl-1024-v1-0/text-to-image''
            [(''Authorization'', ''Bearer None''),
             (''Content-Type'', ''application/json''),
             (''Accept'', ''application/json'')]
            (JsonBody
               [(''text_prompts'',
                   JList [JObj [(''text'', JStr ''a cat''), (''weight'', JFloat 10 (- 1))]]),
                (''cfg_scale'', JInt 7),
                (''width'', JInt 1024),
                (''height'', JInt 1024),
                (''samples'', JInt 1),
                (''steps'', JInt 30)])]
   \<and> fst (generate_stability keyless_world ''a cat'' [''stability_output.png'']
             ''stable-diffusion-xl-1024-v1-0'' 1024 1024 init_state)
       = Inl (Exn ValueError ''Stability API error: unauthorized'')"
  by (simp add: generate_stability_def stability_request_def keyless_world_def
        example_world_def init_state_def perform_def bearer_def Let_def)

section \<open>Where an adapter's failure becomes a value\<close>

lemma query_gemini_outcome:
  "fst (query_gemini w p m s) =
     (case import_result w ''google.genai'' of
        Some e \<Rightarrow> Inl e
      | None \<Rightarrow> text_reply w (GenaiGenerateContent (environ w ''GEMINI_API_KEY'') m p))"
  by (simp add: query_gemini_def Let_def split: option.splits)

lemma write_bytes_frame [simp]:
  "trace (snd (write_bytes w p d s)) = trace s"
  "clock (snd (write_bytes w p d s)) = clock s"
  "stdout (snd (write_bytes w p d s)) = stdout s"
  by (simp_all add: write_bytes_def split: option.splits node.splits prod.splits)

lemma save_image_frame [simp]:
  "trace (snd (save_image w p d s)) = trace s"
  "clock (snd (save_image w p d s)) = clock s"
  "stdout (snd (save_image w p d s)) = stdout s"
  by (simp_all add: save_image_def split: prod.splits sum.splits)
    (metis write_bytes_frame snd_conv)+

lemma perform_frame [simp]:
  "trace (perform w c s) = trace s @ [c]"
  "clock (perform w c s) = clock s + latency w c"
  "fs (perform w c s) = fs s"
  "stdout (perform w c s) = stdout s"
  by (simp_all add: perform_def)

lemma generate_stability_raises:
  "trace (snd (generate_stability w p out m wd ht s)) = trace s @ [stability_request w p m wd ht]
   \<and> (\<forall>e. http_reply w (stability_request w p m wd ht) = Inl e \<longrightarrow>
          fst (generate_stability w p out m wd ht s) = Inl e)
   \<and> (\<forall>r. http_reply w (stability_request w p m wd ht) = Inr r \<and> status_code r \<noteq> 200 \<longrightarrow>
          fst (generate_stability w p out m wd ht s)
            = Inl (Exn ValueError (''Stability API error: '' @ resp_text r)))"
  by (simp add: generate_stability_def Let_def split: sum.splits)

text \<open>
  C3, as the code has it. The adapters of \<open>query_llms.py\<close> and \<open>query_llms_v2.py\<close>
  always return. The adapters under \<open>claude/\<close> do not convert a failure: \<open>query_gemini\<close>
  ends with the exception of its import or of the vendor call, unchanged, and
  \<open>generate_stability\<close>, having posted its request, raises what \<open>requests.post\<close> raised
  or a \<open>ValueError\<close> with the response text when the status is not 200. Turning these
  exceptions into entries is left to \<open>query_all\<close> and \<open>generate_all\<close>.
\<close>

theorem adapter_boundaries:
  "(\<exists>r. fst (ql_query_gemini w p m s) = Inr r)
   \<and> (\<exists>r. fst (ql_query_openai w p m s) = Inr r)
   \<and> (\<exists>r. fst (ql_query_anthropic w p m s) = Inr r)
   \<and> fst (query_gemini w p m s) =
       (case import_result w ''google.genai'' of
          Some e \<Rightarrow> Inl e
        | None \<Rightarrow> text_reply w (GenaiGenerateContent (environ w ''GEMINI_API_KEY'') m p))
   \<and> trace (snd (generate_stability w p out im wd ht s))
       = trace s @ [stability_request w p im wd ht]
   \<and> (\<forall>e. http_reply w (stability_request w p im wd ht) = Inl e \<longrightarrow>
          fst (generate_stability w p out im wd ht s) = Inl e)
   \<and> (\<forall>r. http_reply w (stability_request w p im wd ht) = Inr r \<and> status_code r \<noteq> 200 \<longrightarrow>
          fst (generate_stability w p out im wd ht s)
            = Inl (Exn ValueError (''Stability API error: '' @ resp_text r)))"
  using ql_query_gemini_result [of w p m s] ql_query_openai_result [of w p m s]
    ql_query_anthropic_result [of w p m s] query_gemini_outcome [of w p m s]
    generate_stability_raises [of w p out im wd ht s]
  by blast

theorem adapter_boundaries_witness:
  "http_reply keyless_world
       (stability_request keyless_world ''a cat'' ''stable-diffusion-xl-1024-v1-0'' 1024 1024)
     = Inr \<lparr>status_code = 401, resp_text = ''unauthorized'', resp_content = [],
            artifact0 = Inl (Exn OtherError ''artifacts'')\<rparr>
   \<and> fst (generate_stability keyless_world ''a cat'' [''out.png'']
             ''stable-diffusion-xl-1024-v1-0'' 1024 1024 init_state)
       = Inl (Exn ValueError ''Stability API error: unauthorized'')
   \<and> fst (ql_query_gemini keyless_world ''a cat'' ''gemini-1.5-pro'' init_state) = Inr None"
proof -
  let ?c = "stability_request keyless_world ''a cat'' ''stable-diffusion-xl-1024-v1-0'' 1024 1024"
  let ?r = "\<lparr>status_code = 401, resp_text = ''unauthorized'', resp_content = [],
             artifact0 = Inl (Exn OtherError ''artifacts'')\<rparr>"
  have h: "http_reply keyless_world ?c = Inr ?r"
    by (simp add: keyless_world_def example_world_def)
  have n: "status_code ?r \<noteq> 200" "resp_text ?r = ''unauthorized''"
    by simp_all
  note T = adapter_boundaries [where w = keyless_world and p = "''a cat''"
      and m = "''gemini-1.5-pro''" and s = init_state and out = "[''out.png'']"
      and im = "''stable-diffusion-xl-1024-v1-0''" and wd = 1024 and ht = 1024]
  have g: "fst (generate_stability keyless_world ''a cat'' [''out.png'']
             ''stable-diffusion-xl-1024-v1-0'' 1024 1024 init_state)
       = Inl (Exn ValueError (''Stability API error: '' @ resp_text ?r))"
    using T h n(1) by blast
  have q: "fst (ql_query_gemini keyless_world ''a cat'' ''gemini-1.5-pro'' init_state) = Inr None"
    by (simp add: ql_query_gemini_result keyless_world_def example_world_def)
  show ?thesis
    using h g q by simp
qed

text \<open>
  Against C3 as stated for every adapter: two adapters under \<open>claude/\<close> that end with an
  exception, not with a returned failure value.
\<close>

theorem claude_adapters_raise:
  "fst (query_gemini keyless_world ''hi'' ''gemini-2.0-flash'' init_state)
     = Inl (Exn OtherError ''authentication failed'')
   \<and> fst (generate_stability keyless_world ''a cat'' [''out.png'']
             ''stable-diffusion-xl-1024-v1-0'' 1024 1024 init_state)
       = Inl (Exn ValueError ''Stability API error: unauthorized'')"
  by (simp add: query_gemini_def generate_stability_def keyless_world_def example_world_def
        Let_def)

section \<open>Exit codes of the command lines\<close>

lemma ql_block_returns:
  assumes "\<And>s'. \<exists>r. fst (adapter s') = Inr r"
  shows "\<exists>s'. ql_block title adapter s = (Inr (), s')"
proof -
  let ?s = "print_lines [replicate 60 CHR ''='', title, replicate 60 CHR ''=''] s"
  obtain r where "fst (adapter ?s) = Inr r" using assms by blast
  then show ?thesis
    by (cases "adapter ?s") (simp add: ql_block_def)
qed

lemma lower_Nil [simp]: "(lower x = []) = (x = [])"
  by (simp add: lower_def)

lemma ql_main_all_exit:
  assumes "2 \<le> length argv" and "length argv = 2 \<or> argv ! 2 = []"
  shows "fst (ql_main_with cfg w argv s) = 0"
proof -
  have np: "\<not> truthy (if 2 < length argv then Some (lower (argv ! 2)) else None)"
    using assms by auto
  obtain s1 where b1: "ql_block ''GEMINI''
      (ql_query_gemini w (argv ! 1) (gemini_model (default_models cfg)))
      (print (all_header cfg) s) = (Inr (), s1)"
    using ql_block_returns [of "ql_query_gemini w (argv ! 1) (gemini_model (default_models cfg))"]
      ql_query_gemini_result by blast
  obtain s2 where b2: "ql_block ''OPENAI''
      (ql_query_openai w (argv ! 1) (openai_model (default_models cfg)))
      (print [] s1) = (Inr (), s2)"
    using ql_block_returns [of "ql_query_openai w (argv ! 1) (openai_model (default_models cfg))"]
      ql_query_openai_result by blast
  obtain s3 where b3: "ql_block ''ANTHROPIC''
      (ql_query_anthropic w (argv ! 1) (anthropic_model (default_models cfg)))
      (print [] s2) = (Inr (), s3)"
    using ql_block_returns
      [of "ql_query_anthropic w (argv ! 1) (anthropic_model (default_models cfg))"]
      ql_query_anthropic_result by blast
  show ?thesis
    using assms(1) np b1 b2 b3 by (simp add: ql_main_with_def Let_def)
qed

lemma ql_report_None: "fst rs = Inr None \<Longrightarrow> fst (ql_report rs) = 1"
  by (cases rs) (simp add: ql_report_def)

lemma ql_query_gemini_fst: "fst (ql_query_gemini w p m s) = fst (ql_query_gemini w p m s')"
  by (simp add: ql_query_gemini_result)

lemma ql_query_openai_fst: "fst (ql_query_openai w p m s) = fst (ql_query_openai w p m s')"
  by (simp add: ql_query_openai_result)

lemma ql_query_anthropic_fst: "fst (ql_query_anthropic w p m s) = fst (ql_query_anthropic w p m s')"
  by (simp add: ql_query_anthropic_result)

lemma ql_main_gemini_fails:
  assumes "2 < length argv" and "lower (argv ! 2) = ''gemini''"
    and "fst (ql_query_gemini w (argv ! 1)
           (or_default (if 3 < length argv then Some (argv ! 3) else None)
              (gemini_model (default_models cfg))) s) = Inr None"
  shows "fst (ql_main_with cfg w argv s) = 1"
proof -
  define model where
    "model = or_default (if 3 < length argv then Some (argv ! 3) else None)
               (gemini_model (default_models cfg))"
  have "ql_main_with cfg w argv s =
          ql_report (ql_query_gemini w (argv ! 1) model
                       (print (''Querying Gemini ('' @ model @ '')...'') s))"
    using assms(1,2) by (simp add: ql_main_with_def Let_def model_def)
  moreover have "fst (ql_query_gemini w (argv ! 1) model
                       (print (''Querying Gemini ('' @ model @ '')...'') s)) = Inr None"
    using assms(3) ql_query_gemini_fst [of w "argv ! 1" model _ s] by (simp add: model_def)
  ultimately show ?thesis
    by (simp add: ql_report_None)
qed

lemma ql_main_openai_fails:
  assumes "2 < length argv" and "lower (argv ! 2) = ''openai''"
    and "fst (ql_query_openai w (argv ! 1)
           (or_default (if 3 < length argv then Some (argv ! 3) else None)
              (openai_model (default_models cfg))) s) = Inr None"
  shows "fst (ql_main_with cfg w argv s) = 1"
proof -
  define model where
    "model = or_default (if 3 < length argv then Some (argv ! 3) else None)
               (openai_model (default_models cfg))"
  have "ql_main_with cfg w argv s =
          ql_report (ql_query_openai w (argv ! 1) model
                       (print (''Querying OpenAI ('' @ model @ '')...'') s))"
    using assms(1,2) by (simp add: ql_main_with_def Let_def model_def)
  moreover have "fst (ql_query_openai w (argv ! 1) model
                       (print (''Querying OpenAI ('' @ model @ '')...'') s)) = Inr None"
    using assms(3) ql_query_openai_fst [of w "argv ! 1" model _ s] by (simp add: model_def)
  ultimately show ?thesis
    by (simp add: ql_report_None)
qed

lemma ql_main_anthropic_fails:
  assumes "2 < length argv" and "lower (argv ! 2) = ''anthropic''"
    and "fst (ql_query_anthropic w (argv ! 1)
           (or_default (if 3 < length argv then Some (argv ! 3) else None)
              (anthropic_model (default_models cfg))) s) = Inr None"
  shows "fst (ql_main_with cfg w argv s) = 1"
proof -
  define model where
    "model = or_default (if 3 < length argv then Some (argv ! 3) else None)
               (anthropic_model (default_models cfg))"
  have "ql_main_with cfg w argv s =
          ql_report (ql_query_anthropic w (argv ! 1) model
                       (print (''Querying Anthropic ('' @ model @ '')...'') s))"
    using assms(1,2) by (simp add: ql_main_with_def Let_def model_def)
  moreover have "fst (ql_query_anthropic w (argv ! 1) model
                       (print (''Querying Anthropic ('' @ model @ '')...'') s)) = Inr None"
    using assms(3) ql_query_anthropic_fst [of w "argv ! 1" model _ s] by (simp add: model_def)
  ultimately show ?thesis
    by (simp add: ql_report_None)
qed

lemma llm_query_main_all_exit:
  "arg_provider args = PAll \<Longrightarrow> fst (llm_query_main_with d w args s) = 0"
  by (simp add: llm_query_main_with_def query_all_with_unfold Let_def)

lemma llm_query_main_gemini_fails:
  "arg_provider args = PGemini \<Longrightarrow>
   fst (query_gemini w (arg_prompt args) (or_default (arg_model args) (gemini_model d)) s) = Inl e \<Longrightarrow>
   fst (llm_query_main_with d w args s) = 1"
  by (cases "query_gemini w (arg_prompt args) (or_default (arg_model args) (gemini_model d)) s")
     (simp add: llm_query_main_with_def)

lemma llm_query_main_openai_fails:
  "arg_provider args = POpenai \<Longrightarrow>
   fst (query_openai w (arg_prompt args) (or_default (arg_model args) (openai_model d)) None s) = Inl e \<Longrightarrow>
   fst (llm_query_main_with d w args s) = 1"
  by (cases "query_openai w (arg_prompt args) (or_default (arg_model args) (openai_model d)) None s")
     (simp add: llm_query_main_with_def)

lemma llm_query_main_anthropic_fails:
  "arg_provider args = PAnthropic \<Longrightarrow>
   fst (query_anthropic w (arg_prompt args) (or_default (arg_model args) (anthropic_model d))
          None 1024 s) = Inl e \<Longrightarrow>
   fst (llm_query_main_with d w args s) = 1"
  by (cases "query_anthropic w (arg_prompt args) (or_default (arg_model args) (anthropic_model d))
          None 1024 s")
     (simp add: llm_query_main_with_def)


text \<open>
  C8, as the code has it. When all providers are asked for (\<open>query_llms.py\<close>: no provider
  argument, or an empty one; \<open>claude/llm_query.py\<close>: \<open>--provider all\<close>, the default), the
  exit code is 0 in every world, whether or not a provider succeeded. When one provider is
  named and it fails (its adapter returns \<open>None\<close> in \<open>query_llms.py\<close>, raises in
  \<open>claude/llm_query.py\<close>), the exit code is 1. \<open>ql_main\<close> and \<open>ql_main_v2\<close> are
  \<open>ql_main_with\<close> at the configuration of either file, \<open>llm_query_main\<close> and
  \<open>llm_query_main_v2\<close> are \<open>llm_query_main_with\<close> at either file's defaults.
\<close>

theorem cli_exit_codes:
  "(2 \<le> length argv \<and> (length argv = 2 \<or> argv ! 2 = []) \<longrightarrow>
      fst (ql_main w argv s) = 0 \<and> fst (ql_main_v2 w argv s) = 0)
   \<and> (arg_provider args = PAll \<longrightarrow>
        fst (llm_query_main w args s) = 0 \<and> fst (llm_query_main_v2 w args s) = 0)
   \<and> (2 < length argv \<and> lower (argv ! 2) = ''gemini''
        \<and> fst (ql_query_gemini w (argv ! 1)
                 (or_default (if 3 < length argv then Some (argv ! 3) else None)
                    (gemini_model (default_models cfg))) s) = Inr None \<longrightarrow>
        fst (ql_main_with cfg w argv s) = 1)
   \<and> (2 < length argv \<and> lower (argv ! 2) = ''openai''
        \<and> fst (ql_query_openai w (argv ! 1)
                 (or_default (if 3 < length argv then Some (argv ! 3) else None)
                    (openai_model (default_models cfg))) s) = Inr None \<longrightarrow>
        fst (ql_main_with cfg w argv s) = 1)
   \<and> (2 < length argv \<and> lower (argv ! 2) = ''anthropic''
        \<and> fst (ql_query_anthropic w (argv ! 1)
                 (or_default (if 3 < length argv then Some (argv ! 3) else None)
                    (anthropic_model (default_models cfg))) s) = Inr None \<longrightarrow>
        fst (ql_main_with cfg w argv s) = 1)
   \<and> (arg_provider args = PGemini
        \<and> fst (query_gemini w (arg_prompt args)
                 (or_default (arg_model args) (gemini_model d)) s) = Inl e \<longrightarrow>
        fst (llm_query_main_with d w args s) = 1)
   \<and> (arg_provider args = POpenai
        \<and> fst (query_openai w (arg_prompt args)
                 (or_default (arg_model args) (openai_model d)) None s) = Inl e \<longrightarrow>
        fst (llm_query_main_with d w args s) = 1)
   \<and> (arg_provider args = PAnthropic
        \<and> fst (query_anthropic w (arg_prompt args)
                 (or_default (arg_model args) (anthropic_model d)) None 1024 s) = Inl e \<longrightarrow>
        fst (llm_query_main_with d w args s) = 1)"
  using ql_main_all_exit [of argv query_llms_config w s]
    ql_main_all_exit [of argv query_llms_v2_config w s]
    llm_query_main_all_exit [of args llm_query_defaults w s]
    llm_query_main_all_exit [of args llm_query_v2_defaults w s]
    ql_main_gemini_fails [of argv w cfg s] ql_main_openai_fails [of argv w cfg s]
    ql_main_anthropic_fails [of argv w cfg s]
    llm_query_main_gemini_fails [of args w d s e]
    llm_query_main_openai_fails [of args w d s e]
    llm_query_main_anthropic_fails [of args w d s e]
  unfolding ql_main_def ql_main_v2_def llm_query_main_def llm_query_main_v2_def
  by blast

theorem cli_exit_codes_witness:
  "fst (ql_main keyless_world [''query_llms.py'', ''hi''] init_state) = 0
   \<and> fst (llm_query_main keyless_world
             \<lparr>arg_prompt = ''hi'', arg_provider = PAll, arg_model = None\<rparr> init_state) = 0
   \<and> lower ''Gemini'' = ''gemini''
   \<and> fst (ql_main keyless_world [''query_llms.py'', ''hi'', ''Gemini''] init_state) = 1
   \<and> fst (ql_main keyless_world [''query_llms.py'', ''hi'', ''openai''] init_state) = 1
   \<and> fst (ql_main keyless_world [''query_llms.py'', ''hi'', ''anthropic''] init_state) = 1
   \<and> fst (llm_query_main keyless_world
             \<lparr>arg_prompt = ''hi'', arg_provider = PGemini, arg_model = None\<rparr> init_state) = 1
   \<and> fst (llm_query_main keyless_world
             \<lparr>arg_prompt = ''hi'', arg_provider = POpenai, arg_model = None\<rparr> init_state) = 1
   \<and> fst (llm_query_main keyless_world
             \<lparr>arg_prompt = ''hi'', arg_provider = PAnthropic, arg_model = None\<rparr> init_state) = 1"
proof -
  let ?e = "Exn OtherError ''authentication failed''"
  have lw: "lower ''Gemini'' = ''gemini''" "lower ''openai'' = ''openai''"
    "lower ''anthropic'' = ''anthropic''"
    by (simp_all add: lower_def lower_char_def)
  have q: "\<And>m. fst (ql_query_gemini keyless_world ''hi'' m init_state) = Inr None"
    "\<And>m. fst (ql_query_openai keyless_world ''hi'' m init_state) = Inr None"
    "\<And>m. fst (ql_query_anthropic keyless_world ''hi'' m init_state) = Inr None"
    by (simp_all add: ql_query_gemini_result ql_query_openai_result ql_query_anthropic_result
          keyless_world_def example_world_def)
  have r: "\<And>m. fst (query_gemini keyless_world ''hi'' m init_state) = Inl ?e"
    "\<And>m. fst (query_openai keyless_world ''hi'' m None init_state) = Inl ?e"
    "\<And>m. fst (query_anthropic keyless_world ''hi'' m None 1024 init_state) = Inl ?e"
    by (simp_all add: query_gemini_def query_openai_def query_anthropic_def
          keyless_world_def example_world_def Let_def)
  note A = cli_exit_codes [where argv = "[''query_llms.py'', ''hi'']" and w = keyless_world
      and s = init_state
      and args = "\<lparr>arg_prompt = ''hi'', arg_provider = PAll, arg_model = None\<rparr>"]
  note G = cli_exit_codes [where argv = "[''query_llms.py'', ''hi'', ''Gemini'']"
      and w = keyless_world and s = init_state and cfg = query_llms_config
      and d = llm_query_defaults and e = ?e
      and args = "\<lparr>arg_prompt = ''hi'', arg_provider = PGemini, arg_model = None\<rparr>"]
  note O = cli_exit_codes [where argv = "[''query_llms.py'', ''hi'', ''openai'']"
      and w = keyless_world and s = init_state and cfg = query_llms_config
      and d = llm_query_defaults and e = ?e
      and args = "\<lparr>arg_prompt = ''hi'', arg_provider = POpenai, arg_model = None\<rparr>"]
  note N = cli_exit_codes [where argv = "[''query_llms.py'', ''hi'', ''anthropic'']"
      and w = keyless_world and s = init_state and cfg = query_llms_config
      and d = llm_query_defaults and e = ?e
      and args = "\<lparr>arg_prompt = ''hi'', arg_provider = PAnthropic, arg_model = None\<rparr>"]
  have a: "fst (ql_main keyless_world [''query_llms.py'', ''hi''] init_state) = 0"
    "fst (llm_query_main keyless_world
             \<lparr>arg_prompt = ''hi'', arg_provider = PAll, arg_model = None\<rparr> init_state) = 0"
    using A by simp_all
  have g: "fst (ql_main keyless_world [''query_llms.py'', ''hi'', ''Gemini''] init_state) = 1"
    "fst (llm_query_main keyless_world
             \<lparr>arg_prompt = ''hi'', arg_provider = PGemini, arg_model = None\<rparr> init_state) = 1"
    using G lw q r by (simp_all add: ql_main_def llm_query_main_def)
  have o: "fst (ql_main keyless_world [''query_llms.py'', ''hi'', ''openai''] init_state) = 1"
    "fst (llm_query_main keyless_world
             \<lparr>arg_prompt = ''hi'', arg_provider = POpenai, arg_model = None\<rparr> init_state) = 1"
    using O lw q r by (simp_all add: ql_main_def llm_query_main_def)
  have n: "fst (ql_main keyless_world [''query_llms.py'', ''hi'', ''anthropic''] init_state) = 1"
    "fst (llm_query_main keyless_world
             \<lparr>arg_prompt = ''hi'', arg_provider = PAnthropic, arg_model = None\<rparr> init_state) = 1"
    using N lw q r by (simp_all add: ql_main_def llm_query_main_def)
  show ?thesis
    using a g o n lw(1) by blast
qed

text \<open>
  Against C8 as stated (exit code 0 exactly when a provider succeeded): with no key set and
  every vendor call refused, no provider succeeds and both command lines still end with
  exit code 0.
\<close>

theorem all_mode_exits_0_without_a_success:
  "fst (ql_main keyless_world [''query_llms.py'', ''hi''] init_state) = 0
   \<and> fst (ql_query_gemini keyless_world ''hi'' ''gemini-1.5-pro'' init_state) = Inr None
   \<and> fst (ql_query_openai keyless_world ''hi'' ''gpt-4o'' init_state) = Inr None
   \<and> fst (ql_query_anthropic keyless_world ''hi'' ''claude-3-5-sonnet-20241022'' init_state)
       = Inr None
   \<and> fst (llm_query_main keyless_world
             \<lparr>arg_prompt = ''hi'', arg_provider = PAll, arg_model = None\<rparr> init_state) = 0
   \<and> fst (query_gemini keyless_world ''hi'' ''gemini-2.0-flash'' init_state)
       = Inl (Exn OtherError ''authentication failed'')
   \<and> fst (query_openai keyless_world ''hi'' ''gpt-4o'' None init_state)
       = Inl (Exn OtherError ''authentication failed'')
   \<and> fst (query_anthropic keyless_world ''hi'' ''claude-sonnet-4-20250514'' None 1024 init_state)
       = Inl (Exn OtherError ''authentication failed'')"
proof -
  have 1: "fst (ql_main keyless_world [''query_llms.py'', ''hi''] init_state) = 0"
    unfolding ql_main_def by (rule ql_main_all_exit) simp_all
  have 2: "fst (llm_query_main keyless_world
             \<lparr>arg_prompt = ''hi'', arg_provider = PAll, arg_model = None\<rparr> init_state) = 0"
    unfolding llm_query_main_def by (rule llm_query_main_all_exit) simp
  show ?thesis
    using 1 2
    by (simp add: ql_query_gemini_result ql_query_openai_result ql_query_anthropic_result
          query_gemini_def query_openai_def query_anthropic_def keyless_world_def
          example_world_def Let_def)
qed

section \<open>Order and time of the fan-out\<close>

lemma sequential_run_iff:
  "sequential_run w s s' =
     (\<exists>calls. trace s' = trace s @ calls
        \<and> clock s' = clock s + sum_list (map (latency w) calls))"
proof
  assume "sequential_run w s s'"
  then have "trace s' = trace s @ drop (length (trace s)) (trace s')"
    and "clock s' = clock s + sum_list (map (latency w) (drop (length (trace s)) (trace s')))"
    by (simp_all add: sequential_run_def) (metis append_take_drop_id)
  then show "\<exists>calls. trace s' = trace s @ calls
        \<and> clock s' = clock s + sum_list (map (latency w) calls)"
    by blast
next
  assume "\<exists>calls. trace s' = trace s @ calls
        \<and> clock s' = clock s + sum_list (map (latency w) calls)"
  then show "sequential_run w s s'"
    by (auto simp: sequential_run_def)
qed

lemma sequential_run_refl [simp]: "sequential_run w s s"
  by (simp add: sequential_run_def)

lemma sequential_run_trans:
  "sequential_run w s s1 \<Longrightarrow> sequential_run w s1 s2 \<Longrightarrow> sequential_run w s s2"
  unfolding sequential_run_iff by (auto simp: add.assoc)

lemma sequential_run_perform [simp]: "sequential_run w s (perform w c s)"
  by (simp add: sequential_run_iff)

lemma sequential_run_print: "sequential_run w s s' \<Longrightarrow> sequential_run w s (print l s')"
  by (simp add: sequential_run_iff)

lemma sequential_run_print' [simp]: "sequential_run w (print l s) s' = sequential_run w s s'"
  by (simp add: sequential_run_iff)

lemma sequential_run_print_lines' [simp]:
  "sequential_run w (print_lines ls s) s' = sequential_run w s s'"
  by (induction ls arbitrary: s) simp_all

lemma sequential_run_print_lines: "sequential_run w s s' \<Longrightarrow> sequential_run w s (print_lines ls s')"
  by (induction ls arbitrary: s') (simp_all add: sequential_run_print)

lemma sequential_run_query_gemini: "sequential_run w s (snd (query_gemini w p m s))"
  by (simp add: query_gemini_def Let_def split: option.splits)

lemma sequential_run_query_openai: "sequential_run w s (snd (query_openai w p m sp s))"
  by (simp add: query_openai_def Let_def split: option.splits)

lemma sequential_run_query_anthropic: "sequential_run w s (snd (query_anthropic w p m sp n s))"
  by (simp add: query_anthropic_def Let_def split: option.splits)

lemma sequential_run_query_all: "sequential_run w s (snd (query_all_with d w p s))"
  unfolding query_all_with_snd
  by (blast intro: sequential_run_trans sequential_run_query_gemini
        sequential_run_query_openai sequential_run_query_anthropic)

lemma sequential_run_ql_gemini: "sequential_run w s (snd (ql_query_gemini w p m s))"
  by (simp add: ql_query_gemini_def ql_handle_def ql_not_set_def Let_def sequential_run_print
        split: option.splits sum.splits)

lemma sequential_run_ql_openai: "sequential_run w s (snd (ql_query_openai w p m s))"
  by (simp add: ql_query_openai_def ql_handle_def ql_not_set_def Let_def sequential_run_print
        split: option.splits sum.splits)

lemma sequential_run_ql_anthropic: "sequential_run w s (snd (ql_query_anthropic w p m s))"
  by (simp add: ql_query_anthropic_def ql_handle_def ql_not_set_def Let_def sequential_run_print
        split: option.splits sum.splits)

lemma sequential_run_ql_report:
  "sequential_run w s (snd rs) \<Longrightarrow> sequential_run w s (snd (ql_report rs))"
  by (cases rs) (simp add: ql_report_def sequential_run_print split: sum.splits)

lemma sequential_run_ql_block:
  assumes "\<And>s0. sequential_run w s0 (snd (adapter s0))"
  shows "sequential_run w s (snd (ql_block title adapter s))"
proof -
  let ?s = "print_lines [replicate 60 CHR ''='', title, replicate 60 CHR ''=''] s"
  have "sequential_run w s (snd (adapter ?s))"
    using assms [of ?s] by simp
  then show ?thesis
    by (cases "adapter ?s") (auto simp: ql_block_def sequential_run_print split: sum.splits)
qed

lemma sequential_run_ql_main: "sequential_run w s (snd (ql_main_with cfg w argv s))"
proof -
  let ?p = "argv ! 1"
  let ?dm = "default_models cfg"
  let ?b1 = "ql_block ''GEMINI'' (ql_query_gemini w ?p (gemini_model ?dm)) (print (all_header cfg) s)"
  let ?b2 = "ql_block ''OPENAI'' (ql_query_openai w ?p (openai_model ?dm)) (print [] (snd ?b1))"
  let ?b3 = "ql_block ''ANTHROPIC'' (ql_query_anthropic w ?p (anthropic_model ?dm))
               (print [] (snd ?b2))"
  have 1: "sequential_run w s (snd ?b1)"
    using sequential_run_ql_block [of w "ql_query_gemini w ?p (gemini_model ?dm)"
        "print (all_header cfg) s" "''GEMINI''"] sequential_run_ql_gemini
    by simp
  have "sequential_run w (snd ?b1) (snd ?b2)"
    using sequential_run_ql_block [of w "ql_query_openai w ?p (openai_model ?dm)"
        "print [] (snd ?b1)" "''OPENAI''"] sequential_run_ql_openai
    by simp
  with 1 have 2: "sequential_run w s (snd ?b2)"
    by (rule sequential_run_trans)
  have "sequential_run w (snd ?b2) (snd ?b3)"
    using sequential_run_ql_block [of w "ql_query_anthropic w ?p (anthropic_model ?dm)"
        "print [] (snd ?b2)" "''ANTHROPIC''"] sequential_run_ql_anthropic
    by simp
  with 2 have 3: "sequential_run w s (snd ?b3)"
    by (rule sequential_run_trans)
  have g: "\<And>m l. sequential_run w s (snd (ql_report (ql_query_gemini w ?p m (print l s))))"
    using sequential_run_ql_gemini [of w "print _ s"] by (simp add: sequential_run_ql_report)
  have o: "\<And>m l. sequential_run w s (snd (ql_report (ql_query_openai w ?p m (print l s))))"
    using sequential_run_ql_openai [of w "print _ s"] by (simp add: sequential_run_ql_report)
  have a: "\<And>m l. sequential_run w s (snd (ql_report (ql_query_anthropic w ?p m (print l s))))"
    using sequential_run_ql_anthropic [of w "print _ s"] by (simp add: sequential_run_ql_report)
  show ?thesis
    using 1 2 3 g o a
    by (cases ?b1; cases ?b2; cases ?b3)
       (auto simp: ql_main_with_def Let_def sequential_run_print sequential_run_print_lines
          split: sum.splits)
qed


lemma query_all_with_trace:
  assumes "import_result w ''google.genai'' = None" and "import_result w ''openai'' = None"
    and "import_result w ''anthropic'' = None"
  shows "trace (snd (query_all_with d w p s)) =
           trace s @ [GenaiGenerateContent (environ w ''GEMINI_API_KEY'') (gemini_model d) p,
                      OpenAIChat (environ w ''OPENAI_API_KEY'') (openai_model d) [(''user'', p)],
                      AnthropicMessages (environ w ''ANTHROPIC_API_KEY'') (anthropic_model d)
                        1024 None [(''user'', p)]]"
  using assms
  by (simp add: query_all_with_snd query_gemini_def query_openai_def query_anthropic_def Let_def)

lemma trace_print_lines: "trace (print_lines ls s) = trace s"
  and clock_print_lines: "clock (print_lines ls s) = clock s"
  by (induction ls arbitrary: s) simp_all

lemma query_gemini_calls:
  "trace (snd (query_gemini w p m s)) = trace s @
     (if import_result w ''google.genai'' = None
      then [GenaiGenerateContent (environ w ''GEMINI_API_KEY'') m p] else [])"
  "clock (snd (query_gemini w p m s)) = clock s +
     (if import_result w ''google.genai'' = None
      then latency w (GenaiGenerateContent (environ w ''GEMINI_API_KEY'') m p) else 0)"
  by (simp_all add: query_gemini_def perform_def Let_def split: option.splits)

lemma query_openai_calls:
  "trace (snd (query_openai w p m None s)) = trace s @
     (if import_result w ''openai'' = None
      then [OpenAIChat (environ w ''OPENAI_API_KEY'') m [(''user'', p)]] else [])"
  "clock (snd (query_openai w p m None s)) = clock s +
     (if import_result w ''openai'' = None
      then latency w (OpenAIChat (environ w ''OPENAI_API_KEY'') m [(''user'', p)]) else 0)"
  by (simp_all add: query_openai_def perform_def Let_def split: option.splits)

lemma query_anthropic_calls:
  "trace (snd (query_anthropic w p m None n s)) = trace s @
     (if import_result w ''anthropic'' = None
      then [AnthropicMessages (environ w ''ANTHROPIC_API_KEY'') m n None [(''user'', p)]]
      else [])"
  "clock (snd (query_anthropic w p m None n s)) = clock s +
     (if import_result w ''anthropic'' = None
      then latency w (AnthropicMessages (environ w ''ANTHROPIC_API_KEY'') m n None
                        [(''user'', p)])
      else 0)"
  by (simp_all add: query_anthropic_def perform_def Let_def split: option.splits)

lemma query_all_with_calls:
  "trace (snd (query_all_with d w p s)) = trace s
     @ (if import_result w ''google.genai'' = None
        then [GenaiGenerateContent (environ w ''GEMINI_API_KEY'') (gemini_model d) p] else [])
     @ (if import_result w ''openai'' = None
        then [OpenAIChat (environ w ''OPENAI_API_KEY'') (openai_model d) [(''user'', p)]]
        else [])
     @ (if import_result w ''anthropic'' = None
        then [AnthropicMessages (environ w ''ANTHROPIC_API_KEY'') (anthropic_model d) 1024 None
                [(''user'', p)]]
        else [])"
  "clock (snd (query_all_with d w p s)) = clock s
     + (if import_result w ''google.genai'' = None
        then latency w (GenaiGenerateContent (environ w ''GEMINI_API_KEY'') (gemini_model d) p)
        else 0)
     + (if import_result w ''openai'' = None
        then latency w (OpenAIChat (environ w ''OPENAI_API_KEY'') (openai_model d)
                          [(''user'', p)])
        else 0)
     + (if import_result w ''anthropic'' = None
        then latency w (AnthropicMessages (environ w ''ANTHROPIC_API_KEY'') (anthropic_model d)
                          1024 None [(''user'', p)])
        else 0)"
  unfolding query_all_with_snd
  by (simp_all only: query_gemini_calls query_openai_calls query_anthropic_calls
        append_assoc add.assoc)

lemma ql_query_gemini_calls:
  "trace (snd (ql_query_gemini w p m s)) = trace s @
     (if import_result w ''google.generativeai'' = None \<and> truthy (environ w ''GOOGLE_API_KEY'')
      then [GenerativeaiGenerateContent (the (environ w ''GOOGLE_API_KEY'')) m p] else [])"
  "clock (snd (ql_query_gemini w p m s)) = clock s +
     (if import_result w ''google.generativeai'' = None \<and> truthy (environ w ''GOOGLE_API_KEY'')
      then latency w (GenerativeaiGenerateContent (the (environ w ''GOOGLE_API_KEY'')) m p)
      else 0)"
  by (simp_all add: ql_query_gemini_def ql_handle_def ql_not_set_def perform_def Let_def
        split: option.splits sum.splits)

lemma ql_query_openai_calls:
  "trace (snd (ql_query_openai w p m s)) = trace s @
     (if import_result w ''openai'' = None \<and> truthy (environ w ''OPENAI_API_KEY'')
      then [OpenAIChat (environ w ''OPENAI_API_KEY'') m [(''user'', p)]] else [])"
  "clock (snd (ql_query_openai w p m s)) = clock s +
     (if import_result w ''openai'' = None \<and> truthy (environ w ''OPENAI_API_KEY'')
      then latency w (OpenAIChat (environ w ''OPENAI_API_KEY'') m [(''user'', p)]) else 0)"
  by (simp_all add: ql_query_openai_def ql_handle_def ql_not_set_def perform_def Let_def
        split: option.splits sum.splits)

lemma ql_query_anthropic_calls:
  "trace (snd (ql_query_anthropic w p m s)) = trace s @
     (if import_result w ''anthropic'' = None \<and> truthy (environ w ''ANTHROPIC_API_KEY'')
      then [AnthropicMessages (environ w ''ANTHROPIC_API_KEY'') m 4096 None [(''user'', p)]]
      else [])"
  "clock (snd (ql_query_anthropic w p m s)) = clock s +
     (if import_result w ''anthropic'' = None \<and> truthy (environ w ''ANTHROPIC_API_KEY'')
      then latency w (AnthropicMessages (environ w ''ANTHROPIC_API_KEY'') m 4096 None
                        [(''user'', p)])
      else 0)"
  by (simp_all add: ql_query_anthropic_def ql_handle_def ql_not_set_def perform_def Let_def
        split: option.splits sum.splits)

lemma ql_block_calls:
  "trace (snd (ql_block title adapter s))
     = trace (snd (adapter (print_lines [replicate 60 CHR ''='', title, replicate 60 CHR ''='']
                              s)))"
  "clock (snd (ql_block title adapter s))
     = clock (snd (adapter (print_lines [replicate 60 CHR ''='', title, replicate 60 CHR ''='']
                              s)))"
  by (cases "adapter (print_lines [replicate 60 CHR ''='', title, replicate 60 CHR ''=''] s)";
      simp add: ql_block_def split: sum.splits)+

lemma ql_main_all_snd:
  assumes "2 \<le> length argv" and "length argv = 2 \<or> argv ! 2 = []"
  shows "snd (ql_main_with cfg w argv s) =
           snd (ql_block ''ANTHROPIC''
                  (ql_query_anthropic w (argv ! 1) (anthropic_model (default_models cfg)))
             (print [] (snd (ql_block ''OPENAI''
                  (ql_query_openai w (argv ! 1) (openai_model (default_models cfg)))
               (print [] (snd (ql_block ''GEMINI''
                    (ql_query_gemini w (argv ! 1) (gemini_model (default_models cfg)))
                 (print (all_header cfg) s))))))))"
proof -
  have np: "\<not> truthy (if 2 < length argv then Some (lower (argv ! 2)) else None)"
    using assms by auto
  obtain s1 where b1: "ql_block ''GEMINI''
      (ql_query_gemini w (argv ! 1) (gemini_model (default_models cfg)))
      (print (all_header cfg) s) = (Inr (), s1)"
    using ql_block_returns [of "ql_query_gemini w (argv ! 1) (gemini_model (default_models cfg))"]
      ql_query_gemini_result by blast
  obtain s2 where b2: "ql_block ''OPENAI''
      (ql_query_openai w (argv ! 1) (openai_model (default_models cfg)))
      (print [] s1) = (Inr (), s2)"
    using ql_block_returns [of "ql_query_openai w (argv ! 1) (openai_model (default_models cfg))"]
      ql_query_openai_result by blast
  obtain s3 where b3: "ql_block ''ANTHROPIC''
      (ql_query_anthropic w (argv ! 1) (anthropic_model (default_models cfg)))
      (print [] s2) = (Inr (), s3)"
    using ql_block_returns
      [of "ql_query_anthropic w (argv ! 1) (anthropic_model (default_models cfg))"]
      ql_query_anthropic_result by blast
  show ?thesis
    using assms(1) np b1 b2 b3 by (simp add: ql_main_with_def Let_def)
qed

lemma ql_main_all_calls:
  assumes "2 \<le> length argv" and "length argv = 2 \<or> argv ! 2 = []"
  shows "trace (snd (ql_main_with cfg w argv s)) = trace s
     @ (if import_result w ''google.generativeai'' = None \<and> truthy (environ w ''GOOGLE_API_KEY'')
        then [GenerativeaiGenerateContent (the (environ w ''GOOGLE_API_KEY''))
                (gemini_model (default_models cfg)) (argv ! 1)]
        else [])
     @ (if import_result w ''openai'' = None \<and> truthy (environ w ''OPENAI_API_KEY'')
        then [OpenAIChat (environ w ''OPENAI_API_KEY'') (openai_model (default_models cfg))
                [(''user'', argv ! 1)]]
        else [])
     @ (if import_result w ''anthropic'' = None \<and> truthy (environ w ''ANTHROPIC_API_KEY'')
        then [AnthropicMessages (environ w ''ANTHROPIC_API_KEY'')
                (anthropic_model (default_models cfg)) 4096 None [(''user'', argv ! 1)]]
        else [])"
    and "clock (snd (ql_main_with cfg w argv s)) = clock s
     + (if import_result w ''google.generativeai'' = None \<and> truthy (environ w ''GOOGLE_API_KEY'')
        then latency w (GenerativeaiGenerateContent (the (environ w ''GOOGLE_API_KEY''))
                (gemini_model (default_models cfg)) (argv ! 1))
        else 0)
     + (if import_result w ''openai'' = None \<and> truthy (environ w ''OPENAI_API_KEY'')
        then latency w (OpenAIChat (environ w ''OPENAI_API_KEY'')
                (openai_model (default_models cfg)) [(''user'', argv ! 1)])
        else 0)
     + (if import_result w ''anthropic'' = None \<and> truthy (environ w ''ANTHROPIC_API_KEY'')
        then latency w (AnthropicMessages (environ w ''ANTHROPIC_API_KEY'')
                (anthropic_model (default_models cfg)) 4096 None [(''user'', argv ! 1)])
        else 0)"
  unfolding ql_main_all_snd [OF assms]
  by (simp_all only: ql_block_calls ql_query_gemini_calls ql_query_openai_calls
        ql_query_anthropic_calls trace_print clock_print trace_print_lines clock_print_lines
        append_assoc add.assoc)


lemma sum_list_latency_if:
  "sum_list (map (latency w) (if b then [c] else [])) = (if b then latency w c else 0)"
  by simp

lemma ql_config_models:
  "gemini_model (default_models query_llms_config) = ''gemini-1.5-pro''"
  "openai_model (default_models query_llms_config) = ''gpt-4o''"
  "anthropic_model (default_models query_llms_config) = ''claude-3-5-sonnet-20241022''"
  "gemini_model (default_models query_llms_v2_config) = ''gemini-2.0-flash-exp''"
  "openai_model (default_models query_llms_v2_config) = ''gpt-4o-2025-01-07''"
  "anthropic_model (default_models query_llms_v2_config) = ''claude-3-7-sonnet-20250224''"
  by (simp_all add: query_llms_config_def query_llms_v2_config_def)


text \<open>
  C5, as the code has it. \<open>query_all\<close> (both files) and the \<open>main\<close> of \<open>query_llms.py\<close> and
  \<open>query_llms_v2.py\<close> invoke the adapters one after the other on the calling thread: the
  time a run takes is the sum of the latencies of the calls it makes. The calls of a
  fan-out are these and no others, in this order. \<open>query_all\<close> makes the Gemini call, then
  the OpenAI call, then the Anthropic call, each unless its import fails. \<open>main\<close>, run with
  a prompt and no provider, makes the Gemini call, then the OpenAI call, then the
  Anthropic call, each unless its import fails or its key is not set. In both, the clock
  advances by the sum of the latencies of these calls.
\<close>

theorem fan_out_is_sequential:
  "sequential_run w s (snd (query_all w p s))
   \<and> sequential_run w s (snd (query_all_v2 w p s))
   \<and> sequential_run w s (snd (ql_main w argv s))
   \<and> sequential_run w s (snd (ql_main_v2 w argv s))
   \<and> (import_result w ''google.genai'' = None \<and> import_result w ''openai'' = None
        \<and> import_result w ''anthropic'' = None \<longrightarrow>
        trace (snd (query_all_with d w p s)) =
          trace s @ [GenaiGenerateContent (environ w ''GEMINI_API_KEY'') (gemini_model d) p,
                     OpenAIChat (environ w ''OPENAI_API_KEY'') (openai_model d) [(''user'', p)],
                     AnthropicMessages (environ w ''ANTHROPIC_API_KEY'') (anthropic_model d)
                       1024 None [(''user'', p)]])
   \<and> (let cg = (if import_result w ''google.genai'' = None
               then [GenaiGenerateContent (environ w ''GEMINI_API_KEY'') (gemini_model d) p]
               else []);
          co = (if import_result w ''openai'' = None
               then [OpenAIChat (environ w ''OPENAI_API_KEY'') (openai_model d) [(''user'', p)]]
               else []);
          ca = (if import_result w ''anthropic'' = None
               then [AnthropicMessages (environ w ''ANTHROPIC_API_KEY'') (anthropic_model d)
                       1024 None [(''user'', p)]]
               else [])
      in trace (snd (query_all_with d w p s)) = trace s @ cg @ co @ ca
         \<and> clock (snd (query_all_with d w p s))
             = clock s + sum_list (map (latency w) (cg @ co @ ca)))
   \<and> (2 \<le> length argv \<and> (length argv = 2 \<or> argv ! 2 = []) \<longrightarrow>
        (let cg = (if import_result w ''google.generativeai'' = None
                     \<and> truthy (environ w ''GOOGLE_API_KEY'')
                  then [GenerativeaiGenerateContent (the (environ w ''GOOGLE_API_KEY''))
                          ''gemini-1.5-pro'' (argv ! 1)]
                  else []);
             co = (if import_result w ''openai'' = None \<and> truthy (environ w ''OPENAI_API_KEY'')
                  then [OpenAIChat (environ w ''OPENAI_API_KEY'') ''gpt-4o''
                          [(''user'', argv ! 1)]]
                  else []);
             ca = (if import_result w ''anthropic'' = None
                     \<and> truthy (environ w ''ANTHROPIC_API_KEY'')
                  then [AnthropicMessages (environ w ''ANTHROPIC_API_KEY'')
                          ''claude-3-5-sonnet-20241022'' 4096 None [(''user'', argv ! 1)]]
                  else [])
         in trace (snd (ql_main w argv s)) = trace s @ cg @ co @ ca
            \<and> clock (snd (ql_main w argv s))
                = clock s + sum_list (map (latency w) (cg @ co @ ca))))
   \<and> (2 \<le> length argv \<and> (length argv = 2 \<or> argv ! 2 = []) \<longrightarrow>
        (let cg = (if import_result w ''google.generativeai'' = None
                     \<and> truthy (environ w ''GOOGLE_API_KEY'')
                  then [GenerativeaiGenerateContent (the (environ w ''GOOGLE_API_KEY''))
                          ''gemini-2.0-flash-exp'' (argv ! 1)]
                  else []);
             co = (if import_result w ''openai'' = None \<and> truthy (environ w ''OPENAI_API_KEY'')
                  then [OpenAIChat (environ w ''OPENAI_API_KEY'') ''gpt-4o-2025-01-07''
                          [(''user'', argv ! 1)]]
                  else []);
             ca = (if import_result w ''anthropic'' = None
                     \<and> truthy (environ w ''ANTHROPIC_API_KEY'')
                  then [AnthropicMessages (environ w ''ANTHROPIC_API_KEY'')
                          ''claude-3-7-sonnet-20250224'' 4096 None [(''user'', argv ! 1)]]
                  else [])
         in trace (snd (ql_main_v2 w argv s)) = trace s @ cg @ co @ ca
            \<and> clock (snd (ql_main_v2 w argv s))
                = clock s + sum_list (map (latency w) (cg @ co @ ca))))"
proof -
  let ?g1 = "if import_result w ''google.generativeai'' = None
                     \<and> truthy (environ w ''GOOGLE_API_KEY'')
             then [GenerativeaiGenerateContent (the (environ w ''GOOGLE_API_KEY''))
                     ''gemini-1.5-pro'' (argv ! 1)]
             else []"
  let ?o1 = "if import_result w ''openai'' = None \<and> truthy (environ w ''OPENAI_API_KEY'')
             then [OpenAIChat (environ w ''OPENAI_API_KEY'') ''gpt-4o'' [(''user'', argv ! 1)]]
             else []"
  let ?a1 = "if import_result w ''anthropic'' = None
                     \<and> truthy (environ w ''ANTHROPIC_API_KEY'')
             then [AnthropicMessages (environ w ''ANTHROPIC_API_KEY'')
                     ''claude-3-5-sonnet-20241022'' 4096 None [(''user'', argv ! 1)]]
             else []"
  let ?g2 = "if import_result w ''google.generativeai'' = None
                     \<and> truthy (environ w ''GOOGLE_API_KEY'')
             then [GenerativeaiGenerateContent (the (environ w ''GOOGLE_API_KEY''))
                     ''gemini-2.0-flash-exp'' (argv ! 1)]
             else []"
  let ?o2 = "if import_result w ''openai'' = None \<and> truthy (environ w ''OPENAI_API_KEY'')
             then [OpenAIChat (environ w ''OPENAI_API_KEY'') ''gpt-4o-2025-01-07'' [(''user'', argv ! 1)]]
             else []"
  let ?a2 = "if import_result w ''anthropic'' = None
                     \<and> truthy (environ w ''ANTHROPIC_API_KEY'')
             then [AnthropicMessages (environ w ''ANTHROPIC_API_KEY'')
                     ''claude-3-7-sonnet-20250224'' 4096 None [(''user'', argv ! 1)]]
             else []"
  have 1: "(let cg = (if import_result w ''google.genai'' = None
               then [GenaiGenerateContent (environ w ''GEMINI_API_KEY'') (gemini_model d) p]
               else []);
          co = (if import_result w ''openai'' = None
               then [OpenAIChat (environ w ''OPENAI_API_KEY'') (openai_model d) [(''user'', p)]]
               else []);
          ca = (if import_result w ''anthropic'' = None
               then [AnthropicMessages (environ w ''ANTHROPIC_API_KEY'') (anthropic_model d)
                       1024 None [(''user'', p)]]
               else [])
      in trace (snd (query_all_with d w p s)) = trace s @ cg @ co @ ca
         \<and> clock (snd (query_all_with d w p s))
             = clock s + sum_list (map (latency w) (cg @ co @ ca)))"
    unfolding Let_def
    by (simp only: query_all_with_calls map_append sum_list_append sum_list_latency_if
          add.assoc simp_thms)
  have 2: "(2 \<le> length argv \<and> (length argv = 2 \<or> argv ! 2 = []) \<longrightarrow>
        (let cg = (if import_result w ''google.generativeai'' = None
                     \<and> truthy (environ w ''GOOGLE_API_KEY'')
                  then [GenerativeaiGenerateContent (the (environ w ''GOOGLE_API_KEY''))
                          ''gemini-1.5-pro'' (argv ! 1)]
                  else []);
             co = (if import_result w ''openai'' = None \<and> truthy (environ w ''OPENAI_API_KEY'')
                  then [OpenAIChat (environ w ''OPENAI_API_KEY'') ''gpt-4o''
                          [(''user'', argv ! 1)]]
                  else []);
             ca = (if import_result w ''anthropic'' = None
                     \<and> truthy (environ w ''ANTHROPIC_API_KEY'')
                  then [AnthropicMessages (environ w ''ANTHROPIC_API_KEY'')
                          ''claude-3-5-sonnet-20241022'' 4096 None [(''user'', argv ! 1)]]
                  else [])
         in trace (snd (ql_main w argv s)) = trace s @ cg @ co @ ca
            \<and> clock (snd (ql_main w argv s))
                = clock s + sum_list (map (latency w) (cg @ co @ ca))))"
    unfolding Let_def ql_main_def
  proof (intro impI)
    assume a: "2 \<le> length argv \<and> (length argv = 2 \<or> argv ! 2 = [])"
    note X = ql_main_all_calls [of argv query_llms_config w s, OF conjunct1 [OF a]
        conjunct2 [OF a]]
    show "trace (snd (ql_main_with query_llms_config w argv s)) = trace s @ ?g1 @ ?o1 @ ?a1
       \<and> clock (snd (ql_main_with query_llms_config w argv s))
           = clock s + sum_list (map (latency w) (?g1 @ ?o1 @ ?a1))"
      by (simp only: X ql_config_models map_append sum_list_append sum_list_latency_if
            add.assoc simp_thms)
  qed
  have 3: "(2 \<le> length argv \<and> (length argv = 2 \<or> argv ! 2 = []) \<longrightarrow>
        (let cg = (if import_result w ''google.generativeai'' = None
                     \<and> truthy (environ w ''GOOGLE_API_KEY'')
                  then [GenerativeaiGenerateContent (the (environ w ''GOOGLE_API_KEY''))
                          ''gemini-2.0-flash-exp'' (argv ! 1)]
                  else []);
             co = (if import_result w ''openai'' = None \<and> truthy (environ w ''OPENAI_API_KEY'')
                  then [OpenAIChat (environ w ''OPENAI_API_KEY'') ''gpt-4o-2025-01-07''
                          [(''user'', argv ! 1)]]
                  else []);
             ca = (if import_result w ''anthropic'' = None
                     \<and> truthy (environ w ''ANTHROPIC_API_KEY'')
                  then [AnthropicMessages (environ w ''ANTHROPIC_API_KEY'')
                          ''claude-3-7-sonnet-20250224'' 4096 None [(''user'', argv ! 1)]]
                  else [])
         in trace (snd (ql_main_v2 w argv s)) = trace s @ cg @ co @ ca
            \<and> clock (snd (ql_main_v2 w argv s))
                = clock s + sum_list (map (latency w) (cg @ co @ ca))))"
    unfolding Let_def ql_main_v2_def
  proof (intro impI)
    assume a: "2 \<le> length argv \<and> (length argv = 2 \<or> argv ! 2 = [])"
    note X = ql_main_all_calls [of argv query_llms_v2_config w s, OF conjunct1 [OF a]
        conjunct2 [OF a]]
    show "trace (snd (ql_main_with query_llms_v2_config w argv s)) = trace s @ ?g2 @ ?o2 @ ?a2
       \<and> clock (snd (ql_main_with query_llms_v2_config w argv s))
           = clock s + sum_list (map (latency w) (?g2 @ ?o2 @ ?a2))"
      by (simp only: X ql_config_models map_append sum_list_append sum_list_latency_if
            add.assoc simp_thms)
  qed
  show ?thesis
    using sequential_run_query_all [of w s llm_query_defaults p]
      sequential_run_query_all [of w s llm_query_v2_defaults p]
      sequential_run_ql_main [of w s query_llms_config argv]
      sequential_run_ql_main [of w s query_llms_v2_config argv]
      query_all_with_trace [of w d p s] 1 2 3
    unfolding query_all_def query_all_v2_def ql_main_def ql_main_v2_def
    by blast
qed


theorem fan_out_is_sequential_witness:
  "import_result example_world ''google.genai'' = None
   \<and> import_result example_world ''openai'' = None
   \<and> import_result example_world ''anthropic'' = None
   \<and> trace (snd (query_all_with llm_query_defaults example_world ''hi'' init_state)) =
       [GenaiGenerateContent (Some ''key'') ''gemini-2.0-flash'' ''hi'',
        OpenAIChat (Some ''key'') ''gpt-4o'' [(''user'', ''hi'')],
        AnthropicMessages (Some ''key'') ''claude-sonnet-4-20250514'' 1024 None
          [(''user'', ''hi'')]]
   \<and> clock (snd (query_all_with llm_query_defaults example_world ''hi'' init_state)) = 15
   \<and> 2 \<le> length [''query_llms.py'', ''hi'']
   \<and> trace (snd (ql_main example_world [''query_llms.py'', ''hi''] init_state)) =
       [GenerativeaiGenerateContent ''key'' ''gemini-1.5-pro'' ''hi'',
        OpenAIChat (Some ''key'') ''gpt-4o'' [(''user'', ''hi'')],
        AnthropicMessages (Some ''key'') ''claude-3-5-sonnet-20241022'' 4096 None
          [(''user'', ''hi'')]]
   \<and> clock (snd (ql_main example_world [''query_llms.py'', ''hi''] init_state)) = 15
   \<and> trace (snd (ql_main_v2 example_world [''query_llms_v2.py'', ''hi''] init_state)) =
       [GenerativeaiGenerateContent ''key'' ''gemini-2.0-flash-exp'' ''hi'',
        OpenAIChat (Some ''key'') ''gpt-4o-2025-01-07'' [(''user'', ''hi'')],
        AnthropicMessages (Some ''key'') ''claude-3-7-sonnet-20250224'' 4096 None
          [(''user'', ''hi'')]]
   \<and> clock (snd (ql_main_v2 example_world [''query_llms_v2.py'', ''hi''] init_state)) = 15"
proof -
  have i: "import_result example_world ''google.genai'' = None"
    "import_result example_world ''openai'' = None"
    "import_result example_world ''anthropic'' = None"
    "import_result example_world ''google.generativeai'' = None"
    by (simp_all add: example_world_def)
  have e: "environ example_world ''GEMINI_API_KEY'' = Some ''key''"
    "environ example_world ''GOOGLE_API_KEY'' = Some ''key''"
    "environ example_world ''OPENAI_API_KEY'' = Some ''key''"
    "environ example_world ''ANTHROPIC_API_KEY'' = Some ''key''"
    "trace init_state = []" "clock init_state = 0"
    "\<And>c. latency example_world c = 5"
    by (simp_all add: example_world_def init_state_def)
  show ?thesis
    using i e fan_out_is_sequential [of example_world init_state "''hi''"
        "[''query_llms.py'', ''hi'']" llm_query_defaults]
      fan_out_is_sequential [of example_world init_state "''hi''"
        "[''query_llms_v2.py'', ''hi'']" llm_query_defaults]
    by (simp add: llm_query_defaults_def Let_def)
qed

text \<open>
  Against C5 as stated (latency bounded by the slowest provider): three providers that
  take 5 each make \<open>query_all\<close> take 15.
\<close>

theorem query_all_takes_the_sum:
  "map (latency example_world) (trace (snd (query_all example_world ''hi'' init_state)))
     = [5, 5, 5]
   \<and> clock init_state = 0
   \<and> clock (snd (query_all example_world ''hi'' init_state)) = 15"
  by (simp add: query_all_def query_all_with_snd query_gemini_def query_openai_def
        query_anthropic_def example_world_def init_state_def llm_query_defaults_def
        perform_def Let_def)

lemma query_all_with_latency:
  "fst (query_all_with d (w\<lparr>latency := l\<rparr>) p s) = fst (query_all_with d w p s)"
  by (simp add: query_all_with_fst [where ?s0.0 = s] query_gemini_def query_openai_def
        query_anthropic_def Let_def perform_def split: option.splits)

text \<open>
  C6, as the code has it. \<open>query_all\<close> takes no deadline and applies none: what it returns
  is the same for every assignment of latencies to the calls, so no entry ever becomes a
  failure because its adapter was slow. (That no entry is omitted is C1.)
\<close>

theorem no_deadline_no_timeout:
  "fst (query_all (w\<lparr>latency := l\<rparr>) p s) = fst (query_all w p s)
   \<and> fst (query_all_v2 (w\<lparr>latency := l\<rparr>) p s) = fst (query_all_v2 w p s)"
  by (simp add: query_all_def query_all_v2_def query_all_with_latency)

text \<open>
  Against C6 as stated: the Gemini call returns after 5 units of time, so it is still
  outstanding at a deadline of 1, and its entry is the text it returned, not a timeout
  failure.
\<close>

theorem slow_adapter_is_waited_for:
  "latency example_world (GenaiGenerateContent (Some ''key'') ''gemini-2.0-flash'' ''hi'') = 5
   \<and> trace (snd (query_gemini example_world ''hi'' ''gemini-2.0-flash'' init_state))
       = [GenaiGenerateContent (Some ''key'') ''gemini-2.0-flash'' ''hi'']
   \<and> entry (query_all example_world ''hi'' init_state) ''gemini'' = Some ''ok''
   \<and> fst (query_all example_world ''hi'' init_state)
       = Inr [(''gemini'', ''ok''), (''openai'', ''ok''), (''anthropic'', ''ok'')]"
  by (simp add: query_all_def query_all_with_fst [where ?s0.0 = init_state] entry_def
        entry_of_def query_gemini_def query_openai_def query_anthropic_def example_world_def
        init_state_def perform_def Let_def)

section \<open>Properties of the image adapters and of generate\_all\<close>

lemma dir_walk_snoc:
  "dir_walk f q (cs @ [c]) =
     (case dir_walk f q cs of
        Some e \<Rightarrow> Some e
      | None \<Rightarrow>
          (case f (q @ cs @ [c]) of
             None \<Rightarrow> Some ''ENOENT''
           | Some (File b) \<Rightarrow> Some ''ENOTDIR''
           | Some Dir \<Rightarrow> None))"
  by (induction cs arbitrary: q) (simp_all split: option.splits node.splits)

lemma dir_walk_upd:
  "length q + length cs < length d \<Longrightarrow> dir_walk (f(d \<mapsto> x)) q cs = dir_walk f q cs"
proof (induction cs arbitrary: q)
  case Nil
  then show ?case by simp
next
  case (Cons c cs)
  define g where "g = f(d \<mapsto> x)"
  have "q @ [c] \<noteq> d"
    using Cons.prems by auto
  then have g: "g (q @ [c]) = f (q @ [c])"
    by (simp add: g_def)
  have "dir_walk (f(d \<mapsto> x)) (q @ [c]) cs = dir_walk f (q @ [c]) cs"
    using Cons.prems by (intro Cons.IH) simp
  then have ih: "dir_walk g (q @ [c]) cs = dir_walk f (q @ [c]) cs"
    by (simp only: g_def)
  have "dir_walk g q (c # cs) = dir_walk f q (c # cs)"
    by (simp add: g ih split: option.splits node.splits)
  then show ?case
    by (simp only: g_def)
qed

lemma dir_walk_dirs:
  "dirs f = dirs g \<Longrightarrow> (dir_walk f q cs = None) = (dir_walk g q cs = None)"
proof (induction cs arbitrary: q)
  case Nil
  then show ?case by simp
next
  case (Cons c cs)
  have "(f (q @ [c]) = Some Dir) = (g (q @ [c]) = Some Dir)"
    using Cons.prems by (auto simp: dirs_def)
  then show ?case
    using Cons.IH [OF Cons.prems, of "q @ [c]"]
    by (auto split: option.splits node.splits)
qed

lemma is_dir_dirs: "dirs f = dirs g \<Longrightarrow> is_dir f p = is_dir g p"
  using dir_walk_dirs [of f g "[]" p] by (simp add: is_dir_def)

lemma is_dir_Nil [simp]: "is_dir f []"
  by (simp add: is_dir_def)

lemma is_dir_snoc:
  "is_dir f (cs @ [c]) = (is_dir f cs \<and> f (cs @ [c]) = Some Dir)"
  by (auto simp: is_dir_def dir_walk_snoc split: option.splits node.splits)

lemma is_dir_parent:
  assumes "is_dir f p" and "p \<noteq> []"
  shows "parent_error f p = None" and "f p = Some Dir"
proof -
  from assms(2) obtain cs c where p: "p = cs @ [c]"
    by (metis rev_exhaust)
  have "is_dir f cs \<and> f (cs @ [c]) = Some Dir"
    using assms(1) by (simp add: p is_dir_snoc)
  then show "parent_error f p = None" and "f p = Some Dir"
    by (simp_all add: p parent_error_def is_dir_def)
qed

lemma is_dir_made:
  assumes "p \<noteq> []" and "parent_error f p = None"
  shows "is_dir (f(p \<mapsto> Dir)) p"
proof -
  from assms(1) obtain cs c where p: "p = cs @ [c]"
    by (metis rev_exhaust)
  have "dir_walk (f(cs @ [c] \<mapsto> Dir)) [] cs = dir_walk f [] cs"
    by (rule dir_walk_upd) simp
  then have "is_dir (f(cs @ [c] \<mapsto> Dir)) cs"
    using assms(2) unfolding p by (simp add: is_dir_def parent_error_def)
  then show ?thesis
    unfolding p by (simp add: is_dir_snoc)
qed

lemma dirs_write: "p \<notin> dirs f \<Longrightarrow> dirs (f(p \<mapsto> File b)) = dirs f"
  by (auto simp: dirs_def)


lemma write_bytes_snd:
  "snd (write_bytes w p d s) = s
   \<or> p \<notin> dirs (fs s) \<and> (\<exists>b. snd (write_bytes w p d s) = s\<lparr>fs := (fs s)(p \<mapsto> File b)\<rparr>)"
  by (auto simp: write_bytes_def dirs_def split: option.splits node.splits prod.splits)

lemma write_bytes_dirs [simp]: "dirs (fs (snd (write_bytes w p d s))) = dirs (fs s)"
  using write_bytes_snd [of w p d s] by (auto simp: dirs_write)

lemma write_bytes_other: "q \<noteq> p \<Longrightarrow> fs (snd (write_bytes w p d s)) q = fs s q"
  using write_bytes_snd [of w p d s] by auto


lemma write_bytes_unfaulted:
  "write_fault w p d = None \<Longrightarrow> fst (write_bytes w p d s) = Inl e \<Longrightarrow>
   snd (write_bytes w p d s) = s"
  by (auto simp: write_bytes_def split: option.splits node.splits if_splits)

lemma save_image_fst:
  "fst (save_image w p d s) =
     (case fst (write_bytes w p d s) of Inl e \<Rightarrow> Inl e | Inr u \<Rightarrow> Inr (str_of_path p))"
  by (simp add: save_image_def split: prod.splits sum.splits)

lemma save_image_snd: "snd (save_image w p d s) = snd (write_bytes w p d s)"
  by (simp add: save_image_def split: prod.splits sum.splits)

lemma save_image_dirs [simp]: "dirs (fs (snd (save_image w p d s))) = dirs (fs s)"
  by (simp add: save_image_snd)


lemma save_image_unfaulted:
  "write_fault w p d = None \<Longrightarrow> fst (save_image w p d s) = Inl e \<Longrightarrow>
   snd (save_image w p d s) = s"
  using write_bytes_unfaulted [of w p d s]
  by (auto simp: save_image_fst save_image_snd split: sum.splits)

lemma save_image_other: "q \<noteq> p \<Longrightarrow> fs (snd (save_image w p d s)) q = fs s q"
  by (simp add: save_image_snd write_bytes_other)

lemma image_adapter_dalle: "image_adapter w out (generate_dalle w p out m sz q)"
  unfolding image_adapter_def
  apply (rule exI [of _ "case import_result w ''openai'' of
                           Some e \<Rightarrow> Inl e
                         | None \<Rightarrow> image_reply w
                             (OpenAIImages (environ w ''OPENAI_API_KEY'') m p sz q)"])
  apply (rule exI [of _ "\<lambda>s. case import_result w ''openai'' of
                           Some e \<Rightarrow> s
                         | None \<Rightarrow> perform w
                             (OpenAIImages (environ w ''OPENAI_API_KEY'') m p sz q) s"])
  apply (simp add: generate_dalle_def Let_def split: option.splits sum.splits)
  done

lemma image_adapter_imagen: "image_adapter w out (generate_imagen w p out m)"
  unfolding image_adapter_def
  apply (rule exI [of _ "case import_result w ''google.genai'' of
                           Some e \<Rightarrow> Inl e
                         | None \<Rightarrow>
                             (case import_result w ''google.genai.types'' of
                                Some e \<Rightarrow> Inl e
                              | None \<Rightarrow>
                                  (case images_reply w
                                          (GenaiGenerateImages (environ w ''GEMINI_API_KEY'') m p) of
                                     Inl e \<Rightarrow> Inl e
                                   | Inr [] \<Rightarrow> Inl (Exn ValueError ''No image generated'')
                                   | Inr (d # r) \<Rightarrow> Inr d))"])
  apply (rule exI [of _ "\<lambda>s. case import_result w ''google.genai'' of
                           Some e \<Rightarrow> s
                         | None \<Rightarrow>
                             (case import_result w ''google.genai.types'' of
                                Some e \<Rightarrow> s
                              | None \<Rightarrow> perform w
                                  (GenaiGenerateImages (environ w ''GEMINI_API_KEY'') m p) s)"])
  apply (simp add: generate_imagen_def Let_def split: option.splits sum.splits list.splits)
  done

lemma image_adapter_stability: "image_adapter w out (generate_stability w p out m wd ht)"
  unfolding image_adapter_def
  apply (rule exI [of _ "case http_reply w (stability_request w p m wd ht) of
                           Inl e \<Rightarrow> Inl e
                         | Inr r \<Rightarrow>
                             if status_code r \<noteq> 200
                             then Inl (Exn ValueError (''Stability API error: '' @ resp_text r))
                             else artifact0 r"])
  apply (rule exI [of _ "perform w (stability_request w p m wd ht)"])
  apply (simp add: generate_stability_def Let_def split: sum.splits)
  done

lemma image_adapter_stability_v2: "image_adapter w out (generate_stability_v2 w p out m wd ht)"
  unfolding image_adapter_def
  apply (rule exI [of _ "case http_reply w (stability_request_v2 w p m wd ht) of
                           Inl e \<Rightarrow> Inl e
                         | Inr r \<Rightarrow>
                             if status_code r \<noteq> 200
                             then Inl (Exn ValueError (''Stability API error: '' @ resp_text r))
                             else Inr (resp_content r)"])
  apply (rule exI [of _ "perform w (stability_request_v2 w p m wd ht)"])
  apply (simp add: generate_stability_v2_def Let_def split: sum.splits)
  done

lemma image_adapter_dirs:
  "image_adapter w out A \<Longrightarrow> dirs (fs (snd (A s))) = dirs (fs s)"
  unfolding image_adapter_def
  by (erule exE, erule exE, erule_tac x = s in allE) (auto split: sum.splits)


lemma image_adapter_unfaulted:
  assumes "image_adapter w out A" and "\<And>d. write_fault w out d = None"
    and "fst (A s) = Inl e"
  shows "fs (snd (A s)) = fs s"
proof -
  from assms(1) obtain pre calls where
    c: "\<And>s. fs (calls s) = fs s"
    and A: "\<And>s. A s = (case pre of Inl e \<Rightarrow> (Inl e, calls s)
                        | Inr d \<Rightarrow> save_image w out d (calls s))"
    unfolding image_adapter_def by blast
  show ?thesis
  proof (cases pre)
    case (Inl e')
    then show ?thesis by (simp add: A c)
  next
    case (Inr d)
    with assms(3) have "fst (save_image w out d (calls s)) = Inl e"
      by (simp add: A)
    then have "snd (save_image w out d (calls s)) = calls s"
      using assms(2) by (intro save_image_unfaulted) simp_all
    with Inr show ?thesis by (simp add: A c)
  qed
qed

lemma image_adapter_stdout:
  assumes "image_adapter w out A"
  shows "stdout (snd (A s)) = stdout s"
proof -
  from assms(1) obtain pre calls where
    c: "\<And>s. stdout (calls s) = stdout s"
    and A: "\<And>s. A s = (case pre of Inl e \<Rightarrow> (Inl e, calls s)
                        | Inr d \<Rightarrow> save_image w out d (calls s))"
    unfolding image_adapter_def by blast
  show ?thesis
    by (cases pre) (simp_all add: A c)
qed

lemma image_adapter_other:
  assumes "image_adapter w out A" and "q \<noteq> out"
  shows "fs (snd (A s)) q = fs s q"
proof -
  from assms(1) obtain pre calls where
    c: "\<And>s. fs (calls s) = fs s"
    and A: "\<And>s. A s = (case pre of Inl e \<Rightarrow> (Inl e, calls s)
                        | Inr d \<Rightarrow> save_image w out d (calls s))"
    unfolding image_adapter_def by blast
  show ?thesis
    using assms(2) by (cases pre) (simp_all add: A c save_image_other)
qed

lemma mkdir_cases:
  "mkdir_exist_ok w d s = (Inr (), s) \<and> is_dir (fs s) d
   \<or> mkdir_exist_ok w d s = (Inr (), s\<lparr>fs := (fs s)(d \<mapsto> Dir)\<rparr>)
       \<and> d \<noteq> [] \<and> mkdir_fault w d = None \<and> parent_error (fs s) d = None \<and> fs s d = None
   \<or> (\<exists>e. mkdir_exist_ok w d s = (Inl e, s))"
  by (auto simp: mkdir_exist_ok_def os_mkdir_def split: option.splits)

lemma mkdir_ok_dir:
  "fst (mkdir_exist_ok w d s) = Inr u \<Longrightarrow> is_dir (fs (snd (mkdir_exist_ok w d s))) d"
  using mkdir_cases [of w d s] by (auto simp: is_dir_made)

lemma mkdir_frame:
  "trace (snd (mkdir_exist_ok w d s)) = trace s"
  "clock (snd (mkdir_exist_ok w d s)) = clock s"
  "stdout (snd (mkdir_exist_ok w d s)) = stdout s"
  using mkdir_cases [of w d s] by auto

lemma mkdir_failed: "fst (mkdir_exist_ok w d s) = Inl e \<Longrightarrow> mkdir_exist_ok w d s = (Inl e, s)"
  using mkdir_cases [of w d s] by auto

lemma mkdir_fs:
  "fst (mkdir_exist_ok w d s) = Inr u \<Longrightarrow>
   fs (snd (mkdir_exist_ok w d s)) = (if is_dir (fs s) d then fs s else (fs s)(d \<mapsto> Dir))"
  using mkdir_cases [of w d s] is_dir_parent(2) [of "fs s" d] by auto


lemma generate_all_unfold:
  "generate_all w p d s =
     (case fst (mkdir_exist_ok w d s) of
        Inl e \<Rightarrow> (Inl e, snd (mkdir_exist_ok w d s))
      | Inr u \<Rightarrow>
          (let a = generate_dalle w p (d @ [''dalle_output.png''])
                     ''dall-e-3'' ''1024x1024'' ''standard'' (snd (mkdir_exist_ok w d s));
               b = generate_imagen w p (d @ [''imagen_output.png''])
                     ''imagen-3.0-generate-002'' (snd a);
               c = generate_stability w p (d @ [''stability_output.png''])
                     ''stable-diffusion-xl-1024-v1-0'' 1024 1024 (snd b)
           in (Inr [(''dalle'', entry_of (fst a)), (''imagen'', entry_of (fst b)),
                    (''stability'', entry_of (fst c))], snd c)))"
  by (simp add: generate_all_def try_store_def Let_def split: prod.splits sum.splits)

lemma generate_all_v2_unfold:
  "generate_all_v2 w p d s =
     (case fst (mkdir_exist_ok w d s) of
        Inl e \<Rightarrow> (Inl e, snd (mkdir_exist_ok w d s))
      | Inr u \<Rightarrow>
          (let a = generate_dalle w p (d @ [''openai_output.png''])
                     ''gpt-image-1.5'' ''1024x1024'' ''standard'' (snd (mkdir_exist_ok w d s));
               b = generate_imagen w p (d @ [''imagen_output.png''])
                     ''imagen-4.0-generate-preview'' (snd a);
               c = generate_stability_v2 w p (d @ [''stability_output.png''])
                     ''sd3.5-large'' 1024 1024 (snd b)
           in (Inr [(''openai'', entry_of (fst a)), (''imagen'', entry_of (fst b)),
                    (''stability'', entry_of (fst c))], snd c)))"
  by (simp add: generate_all_v2_def try_store_def Let_def split: prod.splits sum.splits)

text \<open>Three image adapters in a row, as \<open>generate_all\<close> runs them.\<close>

lemma chain_dirs:
  assumes "image_adapter w o1 A" "image_adapter w o2 B" "image_adapter w o3 C"
  shows "dirs (fs (snd (C (snd (B (snd (A s))))))) = dirs (fs s)"
  using assms by (simp add: image_adapter_dirs)







lemma generate_all_keys:
  assumes "fst (mkdir_exist_ok w d s) = Inr ()"
  shows "\<exists>res. fst (generate_all w p d s) = Inr res
           \<and> map fst res = [''dalle'', ''imagen'', ''stability'']"
    and "\<exists>res. fst (generate_all_v2 w p d s) = Inr res
           \<and> map fst res = [''openai'', ''imagen'', ''stability'']"
  using assms by (simp_all add: generate_all_unfold generate_all_v2_unfold Let_def)

lemma generate_all_raises:
  assumes "fst (mkdir_exist_ok w d s) = Inl e"
  shows "generate_all w p d s = (Inl e, s)" and "generate_all_v2 w p d s = (Inl e, s)"
  using assms mkdir_failed [of w d s e]
  by (simp_all add: generate_all_unfold generate_all_v2_unfold)

lemma query_all_keys:
  "\<exists>res. fst (query_all_with dm w p s) = Inr res
      \<and> map fst res = [''gemini'', ''openai'', ''anthropic'']"
  by (simp add: query_all_with_fst [where ?s0.0 = s])

text \<open>
  C1, as the code has it. The registry is fixed in the code: three adapters per fan-out.
  \<open>query_all\<close> (both files) always returns, with exactly the keys \<open>gemini\<close>, \<open>openai\<close>,
  \<open>anthropic\<close>, once each, whatever the adapters do. \<open>generate_all\<close> (both files) does the
  same with its three keys whenever its \<open>mkdir\<close> of the output directory succeeds; when
  the \<open>mkdir\<close> raises, \<open>generate_all\<close> raises that exception, returns no dictionary and
  has invoked no adapter.
\<close>

theorem fan_out_one_entry_per_adapter:
  "(\<exists>res. fst (query_all w p s) = Inr res
        \<and> map fst res = [''gemini'', ''openai'', ''anthropic''])
   \<and> (\<exists>res. fst (query_all_v2 w p s) = Inr res
        \<and> map fst res = [''gemini'', ''openai'', ''anthropic''])
   \<and> (fst (mkdir_exist_ok w d s) = Inr () \<longrightarrow>
        (\<exists>res. fst (generate_all w p d s) = Inr res
           \<and> map fst res = [''dalle'', ''imagen'', ''stability''])
        \<and> (\<exists>res. fst (generate_all_v2 w p d s) = Inr res
           \<and> map fst res = [''openai'', ''imagen'', ''stability'']))
   \<and> (\<forall>e. fst (mkdir_exist_ok w d s) = Inl e \<longrightarrow>
        generate_all w p d s = (Inl e, s) \<and> generate_all_v2 w p d s = (Inl e, s))"
  using query_all_keys [of llm_query_defaults w p s] query_all_keys [of llm_query_v2_defaults w p s]
    generate_all_keys [of w d s p] generate_all_raises [of w d s _ p]
  unfolding query_all_def query_all_v2_def
  by blast

theorem fan_out_one_entry_per_adapter_witness:
  "fst (mkdir_exist_ok keyless_world [''out''] init_state) = Inr ()
   \<and> fst (generate_all keyless_world ''a cat'' [''out''] init_state)
       = Inr [(''dalle'', ''Error: authentication failed''),
              (''imagen'', ''Error: authentication failed''),
              (''stability'', ''Error: Stability API error: unauthorized'')]
   \<and> (\<exists>res. fst (generate_all keyless_world ''a cat'' [''out''] init_state) = Inr res
          \<and> map fst res = [''dalle'', ''imagen'', ''stability''])
   \<and> fst (mkdir_exist_ok keyless_world [''missing'', ''out''] init_state)
       = Inl (Exn OSError ''ENOENT: missing/out'')
   \<and> generate_all keyless_world ''a cat'' [''missing'', ''out''] init_state
       = (Inl (Exn OSError ''ENOENT: missing/out''), init_state)"
proof -
  have m1: "fst (mkdir_exist_ok keyless_world [''out''] init_state) = Inr ()"
    by (simp add: mkdir_exist_ok_def os_mkdir_def parent_error_def init_state_def
          keyless_world_def example_world_def)
  have m2: "fst (mkdir_exist_ok keyless_world [''missing'', ''out''] init_state)
       = Inl (Exn OSError ''ENOENT: missing/out'')"
    by (simp add: mkdir_exist_ok_def os_mkdir_def parent_error_def init_state_def os_error_def
          keyless_world_def example_world_def str_of_path_def)
  note T1 = fan_out_one_entry_per_adapter
    [of keyless_world "''a cat''" init_state "[''out'']"]
  note T2 = fan_out_one_entry_per_adapter
    [of keyless_world "''a cat''" init_state "[''missing'', ''out'']"]
  have k: "\<exists>res. fst (generate_all keyless_world ''a cat'' [''out''] init_state) = Inr res
             \<and> map fst res = [''dalle'', ''imagen'', ''stability'']"
    by (rule T1 [THEN conjunct2, THEN conjunct2, THEN conjunct1, THEN mp, OF m1, THEN conjunct1])
  have v: "fst (generate_all keyless_world ''a cat'' [''out''] init_state)
       = Inr [(''dalle'', ''Error: authentication failed''),
              (''imagen'', ''Error: authentication failed''),
              (''stability'', ''Error: Stability API error: unauthorized'')]"
    using m1
    by (simp add: generate_all_unfold Let_def generate_dalle_def generate_imagen_def
          generate_stability_def entry_of_def keyless_world_def example_world_def)
  have x: "generate_all keyless_world ''a cat'' [''missing'', ''out''] init_state
       = (Inl (Exn OSError ''ENOENT: missing/out''), init_state)"
    by (rule T2 [THEN conjunct2, THEN conjunct2, THEN conjunct2, THEN spec, THEN mp, OF m2,
          THEN conjunct1])
  show ?thesis
    using m1 m2 v x k by blast
qed

text \<open>
  Against C1 as stated for every request: an output directory whose parent does not exist
  makes \<open>generate_all\<close> raise, with no result at all.
\<close>

theorem generate_all_raises_without_parent:
  "fs init_state [''missing''] = None
   \<and> fst (generate_all example_world ''a cat'' [''missing'', ''out''] init_state)
       = Inl (Exn OSError ''ENOENT: missing/out'')
   \<and> fst (generate_all_v2 example_world ''a cat'' [''missing'', ''out''] init_state)
       = Inl (Exn OSError ''ENOENT: missing/out'')"
  by (simp add: generate_all_def generate_all_v2_def mkdir_exist_ok_def os_mkdir_def
        parent_error_def init_state_def os_error_def example_world_def str_of_path_def)





lemma generate_all_snd:
  assumes "fst (mkdir_exist_ok w d s) = Inr ()"
  shows "snd (generate_all w p d s) =
           snd (generate_stability w p (d @ [''stability_output.png''])
                  ''stable-diffusion-xl-1024-v1-0'' 1024 1024
             (snd (generate_imagen w p (d @ [''imagen_output.png'']) ''imagen-3.0-generate-002''
               (snd (generate_dalle w p (d @ [''dalle_output.png'']) ''dall-e-3'' ''1024x1024''
                       ''standard'' (snd (mkdir_exist_ok w d s)))))))"
    and "snd (generate_all_v2 w p d s) =
           snd (generate_stability_v2 w p (d @ [''stability_output.png'']) ''sd3.5-large''
                  1024 1024
             (snd (generate_imagen w p (d @ [''imagen_output.png''])
                     ''imagen-4.0-generate-preview''
               (snd (generate_dalle w p (d @ [''openai_output.png'']) ''gpt-image-1.5''
                       ''1024x1024'' ''standard'' (snd (mkdir_exist_ok w d s)))))))"
  using assms by (simp_all add: generate_all_unfold generate_all_v2_unfold Let_def)

lemma generate_all_dir_exists:
  assumes "fst (generate_all w p d s) = Inr res"
  shows "is_dir (fs (snd (generate_all w p d s))) d"
proof -
  from assms obtain u where m: "fst (mkdir_exist_ok w d s) = Inr u"
    by (cases "fst (mkdir_exist_ok w d s)") (simp_all add: generate_all_unfold)
  let ?s0 = "snd (mkdir_exist_ok w d s)"
  have "is_dir (fs ?s0) d"
    using m by (rule mkdir_ok_dir)
  moreover have "dirs (fs (snd (generate_all w p d s))) = dirs (fs ?s0)"
    using m chain_dirs [OF image_adapter_dalle image_adapter_imagen image_adapter_stability]
    by (simp add: generate_all_unfold Let_def)
  ultimately show ?thesis
    using is_dir_dirs by blast
qed

lemma generate_all_v2_dir_exists:
  assumes "fst (generate_all_v2 w p d s) = Inr res"
  shows "is_dir (fs (snd (generate_all_v2 w p d s))) d"
proof -
  from assms obtain u where m: "fst (mkdir_exist_ok w d s) = Inr u"
    by (cases "fst (mkdir_exist_ok w d s)") (simp_all add: generate_all_v2_unfold)
  let ?s0 = "snd (mkdir_exist_ok w d s)"
  have "is_dir (fs ?s0) d"
    using m by (rule mkdir_ok_dir)
  moreover have "dirs (fs (snd (generate_all_v2 w p d s))) = dirs (fs ?s0)"
    using m chain_dirs [OF image_adapter_dalle image_adapter_imagen image_adapter_stability_v2]
    by (simp add: generate_all_v2_unfold Let_def)
  ultimately show ?thesis
    using is_dir_dirs by blast
qed

lemma chain_all_failed:
  assumes A: "image_adapter w o1 A" and B: "image_adapter w o2 B" and C: "image_adapter w o3 C"
    and a: "A s0 = (Inl e1, s1)" and b: "B s1 = (Inl e2, s2)" and c: "C s2 = (Inl e3, s3)"
  shows "stdout s3 = stdout s0"
    and "q \<noteq> o1 \<Longrightarrow> q \<noteq> o2 \<Longrightarrow> q \<noteq> o3 \<Longrightarrow> fs s3 q = fs s0 q"
    and "(\<And>q data. write_fault w q data = None) \<Longrightarrow> fs s3 = fs s0"
proof -
  have "stdout s1 = stdout s0" using image_adapter_stdout [OF A, of s0] a by simp
  moreover have "stdout s2 = stdout s1" using image_adapter_stdout [OF B, of s1] b by simp
  moreover have "stdout s3 = stdout s2" using image_adapter_stdout [OF C, of s2] c by simp
  ultimately show "stdout s3 = stdout s0" by simp
next
  assume q: "q \<noteq> o1" "q \<noteq> o2" "q \<noteq> o3"
  have "fs s1 q = fs s0 q" using image_adapter_other [OF A q(1), of s0] a by simp
  moreover have "fs s2 q = fs s1 q" using image_adapter_other [OF B q(2), of s1] b by simp
  moreover have "fs s3 q = fs s2 q" using image_adapter_other [OF C q(3), of s2] c by simp
  ultimately show "fs s3 q = fs s0 q" by simp
next
  assume nf: "\<And>q data. write_fault w q data = None"
  have "fs s1 = fs s0" using image_adapter_unfaulted [OF A nf, of s0 e1] a by simp
  moreover have "fs s2 = fs s1" using image_adapter_unfaulted [OF B nf, of s1 e2] b by simp
  moreover have "fs s3 = fs s2" using image_adapter_unfaulted [OF C nf, of s2 e3] c by simp
  ultimately show "fs s3 = fs s0" by simp
qed

lemma generate_all_all_failed:
  assumes m: "mkdir_exist_ok w d s = (Inr (), s0)"
    and a: "generate_dalle w p (d @ [''dalle_output.png'']) ''dall-e-3'' ''1024x1024''
              ''standard'' s0 = (Inl e1, s1)"
    and b: "generate_imagen w p (d @ [''imagen_output.png'']) ''imagen-3.0-generate-002'' s1
              = (Inl e2, s2)"
    and c: "generate_stability w p (d @ [''stability_output.png''])
              ''stable-diffusion-xl-1024-v1-0'' 1024 1024 s2 = (Inl e3, s3)"
  shows "generate_all w p d s
           = (Inr [(''dalle'', ''Error: '' @ str_exn e1), (''imagen'', ''Error: '' @ str_exn e2),
                   (''stability'', ''Error: '' @ str_exn e3)], s3)
         \<and> stdout s3 = stdout s
         \<and> (\<forall>q. q \<noteq> d \<and> q \<noteq> d @ [''dalle_output.png''] \<and> q \<noteq> d @ [''imagen_output.png'']
                \<and> q \<noteq> d @ [''stability_output.png''] \<longrightarrow> fs s3 q = fs s q)
         \<and> ((\<forall>q data. write_fault w q data = None) \<longrightarrow>
               fs s3 = (if is_dir (fs s) d then fs s else (fs s)(d \<mapsto> Dir)))"
proof -
  note ch = chain_all_failed [OF image_adapter_dalle image_adapter_imagen
      image_adapter_stability a b c]
  have 1: "generate_all w p d s
           = (Inr [(''dalle'', ''Error: '' @ str_exn e1), (''imagen'', ''Error: '' @ str_exn e2),
                   (''stability'', ''Error: '' @ str_exn e3)], s3)"
    using m a b c by (simp add: generate_all_unfold Let_def entry_of_def)
  have f0: "fs s0 = (if is_dir (fs s) d then fs s else (fs s)(d \<mapsto> Dir))"
    using mkdir_fs [of w d s "()"] m by simp
  have 2: "stdout s3 = stdout s"
    using ch(1) mkdir_frame(3) [of w d s] m by simp
  have 3: "\<forall>q. q \<noteq> d \<and> q \<noteq> d @ [''dalle_output.png''] \<and> q \<noteq> d @ [''imagen_output.png'']
                \<and> q \<noteq> d @ [''stability_output.png''] \<longrightarrow> fs s3 q = fs s q"
    using ch(2) f0 by simp
  have 4: "(\<forall>q data. write_fault w q data = None) \<longrightarrow>
               fs s3 = (if is_dir (fs s) d then fs s else (fs s)(d \<mapsto> Dir))"
    using ch(3) f0 by simp
  show ?thesis
    using 1 2 3 4 by blast
qed

lemma generate_all_v2_all_failed:
  assumes m: "mkdir_exist_ok w d s = (Inr (), s0)"
    and a: "generate_dalle w p (d @ [''openai_output.png'']) ''gpt-image-1.5'' ''1024x1024''
              ''standard'' s0 = (Inl e1, s1)"
    and b: "generate_imagen w p (d @ [''imagen_output.png'']) ''imagen-4.0-generate-preview'' s1
              = (Inl e2, s2)"
    and c: "generate_stability_v2 w p (d @ [''stability_output.png'']) ''sd3.5-large''
              1024 1024 s2 = (Inl e3, s3)"
  shows "generate_all_v2 w p d s
           = (Inr [(''openai'', ''Error: '' @ str_exn e1), (''imagen'', ''Error: '' @ str_exn e2),
                   (''stability'', ''Error: '' @ str_exn e3)], s3)
         \<and> stdout s3 = stdout s
         \<and> (\<forall>q. q \<noteq> d \<and> q \<noteq> d @ [''openai_output.png''] \<and> q \<noteq> d @ [''imagen_output.png'']
                \<and> q \<noteq> d @ [''stability_output.png''] \<longrightarrow> fs s3 q = fs s q)
         \<and> ((\<forall>q data. write_fault w q data = None) \<longrightarrow>
               fs s3 = (if is_dir (fs s) d then fs s else (fs s)(d \<mapsto> Dir)))"
proof -
  note ch = chain_all_failed [OF image_adapter_dalle image_adapter_imagen
      image_adapter_stability_v2 a b c]
  have 1: "generate_all_v2 w p d s
           = (Inr [(''openai'', ''Error: '' @ str_exn e1), (''imagen'', ''Error: '' @ str_exn e2),
                   (''stability'', ''Error: '' @ str_exn e3)], s3)"
    using m a b c by (simp add: generate_all_v2_unfold Let_def entry_of_def)
  have f0: "fs s0 = (if is_dir (fs s) d then fs s else (fs s)(d \<mapsto> Dir))"
    using mkdir_fs [of w d s "()"] m by simp
  have 2: "stdout s3 = stdout s"
    using ch(1) mkdir_frame(3) [of w d s] m by simp
  have 3: "\<forall>q. q \<noteq> d \<and> q \<noteq> d @ [''openai_output.png''] \<and> q \<noteq> d @ [''imagen_output.png'']
                \<and> q \<noteq> d @ [''stability_output.png''] \<longrightarrow> fs s3 q = fs s q"
    using ch(2) f0 by simp
  have 4: "(\<forall>q data. write_fault w q data = None) \<longrightarrow>
               fs s3 = (if is_dir (fs s) d then fs s else (fs s)(d \<mapsto> Dir))"
    using ch(3) f0 by simp
  show ?thesis
    using 1 2 3 4 by blast
qed

lemma generate_dalle_trace:
  "trace (snd (generate_dalle w p out m sz q s)) = trace s @
     (if import_result w ''openai'' = None
      then [OpenAIImages (environ w ''OPENAI_API_KEY'') m p sz q] else [])"
  by (simp add: generate_dalle_def Let_def split: option.splits sum.splits)

lemma generate_imagen_trace:
  "trace (snd (generate_imagen w p out m s)) = trace s @
     (if import_result w ''google.genai'' = None \<and> import_result w ''google.genai.types'' = None
      then [GenaiGenerateImages (environ w ''GEMINI_API_KEY'') m p] else [])"
  by (simp add: generate_imagen_def Let_def split: option.splits sum.splits list.splits)

lemma generate_stability_trace:
  "trace (snd (generate_stability w p out m wd ht s))
     = trace s @ [stability_request w p m wd ht]"
  "trace (snd (generate_stability_v2 w p out m wd ht s))
     = trace s @ [stability_request_v2 w p m wd ht]"
  by (simp_all add: generate_stability_def generate_stability_v2_def Let_def split: sum.splits)

lemma generate_all_trace:
  assumes "fst (mkdir_exist_ok w d s) = Inr ()"
  shows "trace (snd (generate_all w p d s)) = trace s
     @ (if import_result w ''openai'' = None
        then [OpenAIImages (environ w ''OPENAI_API_KEY'') ''dall-e-3'' p ''1024x1024''
                ''standard'']
        else [])
     @ (if import_result w ''google.genai'' = None
           \<and> import_result w ''google.genai.types'' = None
        then [GenaiGenerateImages (environ w ''GEMINI_API_KEY'') ''imagen-3.0-generate-002'' p]
        else [])
     @ [stability_request w p ''stable-diffusion-xl-1024-v1-0'' 1024 1024]"
    and "trace (snd (generate_all_v2 w p d s)) = trace s
     @ (if import_result w ''openai'' = None
        then [OpenAIImages (environ w ''OPENAI_API_KEY'') ''gpt-image-1.5'' p ''1024x1024''
                ''standard'']
        else [])
     @ (if import_result w ''google.genai'' = None
           \<and> import_result w ''google.genai.types'' = None
        then [GenaiGenerateImages (environ w ''GEMINI_API_KEY'') ''imagen-4.0-generate-preview''
                p]
        else [])
     @ [stability_request_v2 w p ''sd3.5-large'' 1024 1024]"
  unfolding generate_all_snd [OF assms]
  by (simp_all only: generate_dalle_trace generate_imagen_trace generate_stability_trace
        mkdir_frame(1) append_assoc)

lemma generate_all_starts_after_mkdir:
  assumes "fst (mkdir_exist_ok w d s) = Inr ()"
  shows "is_dir (fs (snd (mkdir_exist_ok w d s))) d"
    and "trace (snd (mkdir_exist_ok w d s)) = trace s"
  using assms mkdir_ok_dir [of w d s "()"] mkdir_frame(1) [of w d s] by simp_all


text \<open>
  C10, as the code has it. \<open>generate_all\<close> (both files) makes the output directory before
  anything else. If the \<open>mkdir\<close> raises, \<open>generate_all\<close> raises the same exception and leaves
  the state as it found it: no adapter has run. If it succeeds, the directory exists, no
  call has been made yet, and the three adapters run in order from the state the \<open>mkdir\<close>
  left; the requests of the run are theirs, in order. Whenever \<open>generate_all\<close> returns, the
  directory exists in the state it leaves. On the run where all three adapters fail, the
  dictionary holds the three \<open>Error: \<close> entries, nothing was printed, and the file system
  differs from the one before the call at most at the output directory and at the three
  output files; when no write fails after its file was opened, it is the one before the
  call with at most the output directory added.
\<close>

theorem generate_all_makes_directory_first:
  "(\<forall>e. fst (mkdir_exist_ok w d s) = Inl e \<longrightarrow>
      generate_all w p d s = (Inl e, s) \<and> generate_all_v2 w p d s = (Inl e, s))
   \<and> (fst (mkdir_exist_ok w d s) = Inr () \<longrightarrow>
        is_dir (fs (snd (mkdir_exist_ok w d s))) d
        \<and> trace (snd (mkdir_exist_ok w d s)) = trace s
        \<and> snd (generate_all w p d s) =
            snd (generate_stability w p (d @ [''stability_output.png''])
                   ''stable-diffusion-xl-1024-v1-0'' 1024 1024
              (snd (generate_imagen w p (d @ [''imagen_output.png'']) ''imagen-3.0-generate-002''
                (snd (generate_dalle w p (d @ [''dalle_output.png'']) ''dall-e-3'' ''1024x1024''
                        ''standard'' (snd (mkdir_exist_ok w d s)))))))
        \<and> snd (generate_all_v2 w p d s) =
            snd (generate_stability_v2 w p (d @ [''stability_output.png'']) ''sd3.5-large''
                   1024 1024
              (snd (generate_imagen w p (d @ [''imagen_output.png''])
                      ''imagen-4.0-generate-preview''
                (snd (generate_dalle w p (d @ [''openai_output.png'']) ''gpt-image-1.5''
                        ''1024x1024'' ''standard'' (snd (mkdir_exist_ok w d s)))))))
        \<and> trace (snd (generate_all w p d s)) = trace s
            @ (if import_result w ''openai'' = None
               then [OpenAIImages (environ w ''OPENAI_API_KEY'') ''dall-e-3'' p ''1024x1024''
                       ''standard'']
               else [])
            @ (if import_result w ''google.genai'' = None
                  \<and> import_result w ''google.genai.types'' = None
               then [GenaiGenerateImages (environ w ''GEMINI_API_KEY'')
                       ''imagen-3.0-generate-002'' p]
               else [])
            @ [stability_request w p ''stable-diffusion-xl-1024-v1-0'' 1024 1024]
        \<and> trace (snd (generate_all_v2 w p d s)) = trace s
            @ (if import_result w ''openai'' = None
               then [OpenAIImages (environ w ''OPENAI_API_KEY'') ''gpt-image-1.5'' p
                       ''1024x1024'' ''standard'']
               else [])
            @ (if import_result w ''google.genai'' = None
                  \<and> import_result w ''google.genai.types'' = None
               then [GenaiGenerateImages (environ w ''GEMINI_API_KEY'')
                       ''imagen-4.0-generate-preview'' p]
               else [])
            @ [stability_request_v2 w p ''sd3.5-large'' 1024 1024])
   \<and> (\<forall>res. fst (generate_all w p d s) = Inr res \<longrightarrow>
        is_dir (fs (snd (generate_all w p d s))) d)
   \<and> (\<forall>res. fst (generate_all_v2 w p d s) = Inr res \<longrightarrow>
        is_dir (fs (snd (generate_all_v2 w p d s))) d)
   \<and> (mkdir_exist_ok w d s = (Inr (), s0)
       \<and> generate_dalle w p (d @ [''dalle_output.png'']) ''dall-e-3'' ''1024x1024''
            ''standard'' s0 = (Inl e1, s1)
       \<and> generate_imagen w p (d @ [''imagen_output.png'']) ''imagen-3.0-generate-002'' s1
            = (Inl e2, s2)
       \<and> generate_stability w p (d @ [''stability_output.png''])
            ''stable-diffusion-xl-1024-v1-0'' 1024 1024 s2 = (Inl e3, s3) \<longrightarrow>
       generate_all w p d s
         = (Inr [(''dalle'', ''Error: '' @ str_exn e1), (''imagen'', ''Error: '' @ str_exn e2),
                 (''stability'', ''Error: '' @ str_exn e3)], s3)
       \<and> stdout s3 = stdout s
       \<and> (\<forall>q. q \<noteq> d \<and> q \<noteq> d @ [''dalle_output.png''] \<and> q \<noteq> d @ [''imagen_output.png'']
              \<and> q \<noteq> d @ [''stability_output.png''] \<longrightarrow> fs s3 q = fs s q)
       \<and> ((\<forall>q data. write_fault w q data = None) \<longrightarrow>
             fs s3 = (if is_dir (fs s) d then fs s else (fs s)(d \<mapsto> Dir))))
   \<and> (mkdir_exist_ok w d s = (Inr (), s0)
       \<and> generate_dalle w p (d @ [''openai_output.png'']) ''gpt-image-1.5'' ''1024x1024''
            ''standard'' s0 = (Inl e1, s1)
       \<and> generate_imagen w p (d @ [''imagen_output.png'']) ''imagen-4.0-generate-preview'' s1
            = (Inl e2, s2)
       \<and> generate_stability_v2 w p (d @ [''stability_output.png'']) ''sd3.5-large''
            1024 1024 s2 = (Inl e3, s3) \<longrightarrow>
       generate_all_v2 w p d s
         = (Inr [(''openai'', ''Error: '' @ str_exn e1), (''imagen'', ''Error: '' @ str_exn e2),
                 (''stability'', ''Error: '' @ str_exn e3)], s3)
       \<and> stdout s3 = stdout s
       \<and> (\<forall>q. q \<noteq> d \<and> q \<noteq> d @ [''openai_output.png''] \<and> q \<noteq> d @ [''imagen_output.png'']
              \<and> q \<noteq> d @ [''stability_output.png''] \<longrightarrow> fs s3 q = fs s q)
       \<and> ((\<forall>q data. write_fault w q data = None) \<longrightarrow>
             fs s3 = (if is_dir (fs s) d then fs s else (fs s)(d \<mapsto> Dir))))"
proof -
  have 1: "\<forall>e. fst (mkdir_exist_ok w d s) = Inl e \<longrightarrow>
      generate_all w p d s = (Inl e, s) \<and> generate_all_v2 w p d s = (Inl e, s)"
    using generate_all_raises [of w d s _ p] by blast
  have 2: "fst (mkdir_exist_ok w d s) = Inr () \<longrightarrow>
        is_dir (fs (snd (mkdir_exist_ok w d s))) d
        \<and> trace (snd (mkdir_exist_ok w d s)) = trace s
        \<and> snd (generate_all w p d s) =
            snd (generate_stability w p (d @ [''stability_output.png''])
                   ''stable-diffusion-xl-1024-v1-0'' 1024 1024
              (snd (generate_imagen w p (d @ [''imagen_output.png'']) ''imagen-3.0-generate-002''
                (snd (generate_dalle w p (d @ [''dalle_output.png'']) ''dall-e-3'' ''1024x1024''
                        ''standard'' (snd (mkdir_exist_ok w d s)))))))
        \<and> snd (generate_all_v2 w p d s) =
            snd (generate_stability_v2 w p (d @ [''stability_output.png'']) ''sd3.5-large''
                   1024 1024
              (snd (generate_imagen w p (d @ [''imagen_output.png''])
                      ''imagen-4.0-generate-preview''
                (snd (generate_dalle w p (d @ [''openai_output.png'']) ''gpt-image-1.5''
                        ''1024x1024'' ''standard'' (snd (mkdir_exist_ok w d s)))))))
        \<and> trace (snd (generate_all w p d s)) = trace s
            @ (if import_result w ''openai'' = None
               then [OpenAIImages (environ w ''OPENAI_API_KEY'') ''dall-e-3'' p ''1024x1024''
                       ''standard'']
               else [])
            @ (if import_result w ''google.genai'' = None
                  \<and> import_result w ''google.genai.types'' = None
               then [GenaiGenerateImages (environ w ''GEMINI_API_KEY'')
                       ''imagen-3.0-generate-002'' p]
               else [])
            @ [stability_request w p ''stable-diffusion-xl-1024-v1-0'' 1024 1024]
        \<and> trace (snd (generate_all_v2 w p d s)) = trace s
            @ (if import_result w ''openai'' = None
               then [OpenAIImages (environ w ''OPENAI_API_KEY'') ''gpt-image-1.5'' p
                       ''1024x1024'' ''standard'']
               else [])
            @ (if import_result w ''google.genai'' = None
                  \<and> import_result w ''google.genai.types'' = None
               then [GenaiGenerateImages (environ w ''GEMINI_API_KEY'')
                       ''imagen-4.0-generate-preview'' p]
               else [])
            @ [stability_request_v2 w p ''sd3.5-large'' 1024 1024]"
    using generate_all_starts_after_mkdir [of w d s] generate_all_snd [of w d s p]
      generate_all_trace [of w d s p] by blast
  have 3: "\<forall>res. fst (generate_all w p d s) = Inr res \<longrightarrow>
        is_dir (fs (snd (generate_all w p d s))) d"
    "\<forall>res. fst (generate_all_v2 w p d s) = Inr res \<longrightarrow>
        is_dir (fs (snd (generate_all_v2 w p d s))) d"
    using generate_all_dir_exists [of w p d s] generate_all_v2_dir_exists [of w p d s]
    by blast+
  show ?thesis
    using 1 2 3 generate_all_all_failed [of w d s s0 p e1 s1 e2 s2 e3 s3]
      generate_all_v2_all_failed [of w d s s0 p e1 s1 e2 s2 e3 s3]
    by blast
qed


theorem generate_all_makes_directory_first_witness:
  "(let e = Exn OtherError ''authentication failed'';
        e3 = Exn ValueError ''Stability API error: unauthorized'';
        s0 = init_state\<lparr>fs := (fs init_state)([''out''] \<mapsto> Dir)\<rparr>;
        s1 = perform keyless_world
               (OpenAIImages None ''dall-e-3'' ''a cat'' ''1024x1024'' ''standard'') s0;
        s2 = perform keyless_world
               (GenaiGenerateImages None ''imagen-3.0-generate-002'' ''a cat'') s1;
        s3 = perform keyless_world
               (stability_request keyless_world ''a cat'' ''stable-diffusion-xl-1024-v1-0''
                  1024 1024) s2
    in fst (mkdir_exist_ok keyless_world [''missing'', ''out''] init_state)
         = Inl (Exn OSError ''ENOENT: missing/out'')
       \<and> generate_all keyless_world ''a cat'' [''missing'', ''out''] init_state
           = (Inl (Exn OSError ''ENOENT: missing/out''), init_state)
       \<and> mkdir_exist_ok keyless_world [''out''] init_state = (Inr (), s0)
       \<and> generate_dalle keyless_world ''a cat'' ([''out''] @ [''dalle_output.png''])
            ''dall-e-3'' ''1024x1024'' ''standard'' s0 = (Inl e, s1)
       \<and> generate_imagen keyless_world ''a cat'' ([''out''] @ [''imagen_output.png''])
            ''imagen-3.0-generate-002'' s1 = (Inl e, s2)
       \<and> generate_stability keyless_world ''a cat'' ([''out''] @ [''stability_output.png''])
            ''stable-diffusion-xl-1024-v1-0'' 1024 1024 s2 = (Inl e3, s3)
       \<and> (\<forall>q data. write_fault keyless_world q data = None)
       \<and> generate_all keyless_world ''a cat'' [''out''] init_state
           = (Inr [(''dalle'', ''Error: authentication failed''),
                   (''imagen'', ''Error: authentication failed''),
                   (''stability'', ''Error: Stability API error: unauthorized'')], s3)
       \<and> fs s3 = (fs init_state)([''out''] \<mapsto> Dir)
       \<and> stdout s3 = []
       \<and> trace (snd (generate_all keyless_world ''a cat'' [''out''] init_state))
           = [OpenAIImages None ''dall-e-3'' ''a cat'' ''1024x1024'' ''standard'',
              GenaiGenerateImages None ''imagen-3.0-generate-002'' ''a cat'',
              stability_request keyless_world ''a cat'' ''stable-diffusion-xl-1024-v1-0''
                1024 1024]
       \<and> is_dir (fs s0) [''out'']
       \<and> is_dir (fs (snd (generate_all keyless_world ''a cat'' [''out''] init_state))) [''out''])"
proof -
  let ?e = "Exn OtherError ''authentication failed''"
  let ?e3 = "Exn ValueError ''Stability API error: unauthorized''"
  let ?s0 = "init_state\<lparr>fs := (fs init_state)([''out''] \<mapsto> Dir)\<rparr>"
  let ?s1 = "perform keyless_world
               (OpenAIImages None ''dall-e-3'' ''a cat'' ''1024x1024'' ''standard'') ?s0"
  let ?s2 = "perform keyless_world
               (GenaiGenerateImages None ''imagen-3.0-generate-002'' ''a cat'') ?s1"
  let ?s3 = "perform keyless_world
               (stability_request keyless_world ''a cat'' ''stable-diffusion-xl-1024-v1-0''
                  1024 1024) ?s2"
  have mf: "fst (mkdir_exist_ok keyless_world [''missing'', ''out''] init_state)
         = Inl (Exn OSError ''ENOENT: missing/out'')"
    by (simp add: mkdir_exist_ok_def os_mkdir_def parent_error_def init_state_def os_error_def
          keyless_world_def example_world_def str_of_path_def)
  have m: "mkdir_exist_ok keyless_world [''out''] init_state = (Inr (), ?s0)"
    by (simp add: mkdir_exist_ok_def os_mkdir_def parent_error_def init_state_def
          keyless_world_def example_world_def)
  have a: "generate_dalle keyless_world ''a cat'' ([''out''] @ [''dalle_output.png''])
            ''dall-e-3'' ''1024x1024'' ''standard'' ?s0 = (Inl ?e, ?s1)"
    by (simp add: generate_dalle_def keyless_world_def example_world_def Let_def)
  have b: "generate_imagen keyless_world ''a cat'' ([''out''] @ [''imagen_output.png''])
            ''imagen-3.0-generate-002'' ?s1 = (Inl ?e, ?s2)"
    by (simp add: generate_imagen_def keyless_world_def example_world_def Let_def)
  have c: "generate_stability keyless_world ''a cat'' ([''out''] @ [''stability_output.png''])
            ''stable-diffusion-xl-1024-v1-0'' 1024 1024 ?s2 = (Inl ?e3, ?s3)"
    by (simp add: generate_stability_def keyless_world_def example_world_def Let_def)
  have nf: "\<forall>q data. write_fault keyless_world q data = None"
    by (simp add: keyless_world_def example_world_def)
  have n: "\<not> is_dir (fs init_state) [''out'']" "stdout init_state = []"
    by (simp_all add: is_dir_def init_state_def)
  note T = generate_all_makes_directory_first
    [where w = keyless_world and p = "''a cat''" and d = "[''out'']" and s = init_state
       and ?s0.0 = ?s0 and ?s1.0 = ?s1 and ?s2.0 = ?s2 and ?s3.0 = ?s3
       and ?e1.0 = ?e and ?e2.0 = ?e and ?e3.0 = ?e3]
  note U = generate_all_makes_directory_first
    [where w = keyless_world and p = "''a cat''" and d = "[''missing'', ''out'']"
       and s = init_state]
  have x: "generate_all keyless_world ''a cat'' [''missing'', ''out''] init_state
           = (Inl (Exn OSError ''ENOENT: missing/out''), init_state)"
    using U [THEN conjunct1] mf by blast
  have r: "generate_all keyless_world ''a cat'' [''out''] init_state
           = (Inr [(''dalle'', ''Error: '' @ str_exn ?e), (''imagen'', ''Error: '' @ str_exn ?e),
                   (''stability'', ''Error: '' @ str_exn ?e3)], ?s3)
       \<and> stdout ?s3 = stdout init_state
       \<and> (\<forall>q. q \<noteq> [''out''] \<and> q \<noteq> [''out''] @ [''dalle_output.png'']
              \<and> q \<noteq> [''out''] @ [''imagen_output.png'']
              \<and> q \<noteq> [''out''] @ [''stability_output.png''] \<longrightarrow> fs ?s3 q = fs init_state q)
       \<and> ((\<forall>q data. write_fault keyless_world q data = None) \<longrightarrow>
             fs ?s3 = (if is_dir (fs init_state) [''out''] then fs init_state
                       else (fs init_state)([''out''] \<mapsto> Dir)))"
    using T [THEN conjunct2, THEN conjunct2, THEN conjunct2, THEN conjunct2, THEN conjunct1]
      m a b c by blast
  have f3: "fs ?s3 = (fs init_state)([''out''] \<mapsto> Dir)"
    using r nf n(1) by simp
  have d0: "is_dir (fs ?s0) [''out'']"
    using T [THEN conjunct2, THEN conjunct1] m by simp
  have m1: "fst (mkdir_exist_ok keyless_world [''out''] init_state) = Inr ()"
    using m by simp
  have iw: "import_result keyless_world ''openai'' = None"
    "import_result keyless_world ''google.genai'' = None"
    "import_result keyless_world ''google.genai.types'' = None"
    "environ keyless_world ''OPENAI_API_KEY'' = None"
    "environ keyless_world ''GEMINI_API_KEY'' = None"
    "trace init_state = []"
    by (simp_all add: keyless_world_def example_world_def init_state_def)
  have tr: "trace (snd (generate_all keyless_world ''a cat'' [''out''] init_state))
           = [OpenAIImages None ''dall-e-3'' ''a cat'' ''1024x1024'' ''standard'',
              GenaiGenerateImages None ''imagen-3.0-generate-002'' ''a cat'',
              stability_request keyless_world ''a cat'' ''stable-diffusion-xl-1024-v1-0''
                1024 1024]"
    using T [THEN conjunct2, THEN conjunct1, THEN mp, OF m1, THEN conjunct2, THEN conjunct2,
        THEN conjunct2, THEN conjunct2, THEN conjunct1] iw
    by simp
  have y: "is_dir (fs (snd (generate_all keyless_world ''a cat'' [''out''] init_state))) [''out'']"
    using T [THEN conjunct2, THEN conjunct2, THEN conjunct1] r by simp
  have r1: "generate_all keyless_world ''a cat'' [''out''] init_state
           = (Inr [(''dalle'', ''Error: authentication failed''),
                   (''imagen'', ''Error: authentication failed''),
                   (''stability'', ''Error: Stability API error: unauthorized'')], ?s3)"
    using r by simp
  have so: "stdout ?s3 = []"
    using r n(2) by simp
  show ?thesis
    unfolding Let_def using mf x m a b c nf r1 f3 so tr d0 y by blast
qed

text \<open>
  Against C10 as stated (nothing else is touched on the run where every adapter fails): on
  a full disk each adapter is sent its image, opens its output file and fails to write it.
  The three entries are failures, three requests have gone out, and
  \<open>out/dalle_output.png\<close>, absent before, is left behind as an empty file.
\<close>

theorem all_failures_leave_files_and_requests:
  "fst (generate_all full_disk_world ''a cat'' [''out''] init_state)
     = Inr [(''dalle'', ''Error: ENOSPC: out/dalle_output.png''),
            (''imagen'', ''Error: ENOSPC: out/imagen_output.png''),
            (''stability'', ''Error: ENOSPC: out/stability_output.png'')]
   \<and> fst (generate_dalle full_disk_world ''a cat'' [''out'', ''dalle_output.png''] ''dall-e-3''
             ''1024x1024'' ''standard''
             (snd (mkdir_exist_ok full_disk_world [''out''] init_state)))
       = Inl (Exn OSError ''ENOSPC: out/dalle_output.png'')
   \<and> fs init_state [''out'', ''dalle_output.png''] = None
   \<and> fs (snd (generate_all full_disk_world ''a cat'' [''out''] init_state))
        [''out'', ''dalle_output.png''] = Some (File [])
   \<and> length (trace (snd (generate_all full_disk_world ''a cat'' [''out''] init_state))) = 3"
proof -
  let ?s0 = "init_state\<lparr>fs := (fs init_state)([''out''] \<mapsto> Dir)\<rparr>"
  have m: "mkdir_exist_ok full_disk_world [''out''] init_state = (Inr (), ?s0)"
    by (simp add: mkdir_exist_ok_def os_mkdir_def parent_error_def init_state_def
          full_disk_world_def example_world_def)
  have a: "generate_dalle full_disk_world ''a cat'' [''out'', ''dalle_output.png''] ''dall-e-3''
             ''1024x1024'' ''standard'' ?s0
           = (Inl (Exn OSError ''ENOSPC: out/dalle_output.png''),
              (perform full_disk_world
                 (OpenAIImages (Some ''key'') ''dall-e-3'' ''a cat'' ''1024x1024'' ''standard'') ?s0)
              \<lparr>fs := (fs ?s0)([''out'', ''dalle_output.png''] \<mapsto> File [])\<rparr>)"
    by (simp add: generate_dalle_def save_image_def write_bytes_def parent_error_def
          os_error_def str_of_path_def perform_def Let_def full_disk_world_def
          example_world_def init_state_def)
  show ?thesis
    apply (simp only: generate_all_unfold m a fst_conv snd_conv sum.case Let_def append.simps)
    apply (simp add: generate_imagen_def
          generate_stability_def stability_request_def save_image_def write_bytes_def
          parent_error_def os_error_def str_of_path_def entry_of_def perform_def Let_def
          full_disk_world_def example_world_def init_state_def)
    done
qed

section \<open>Failure isolation of the fan-out\<close>




end
